theory Spec2Isabelle
  imports Complex_Main "HOL-Library.Word"
begin

section \<open>Numbers\<close>

text \<open>
  The renderer computes in \<^verbatim>\<open>real32\<close> (an IEEE 754 single). The embedding reads
  \<^verbatim>\<open>real32\<close> as a real number: infinities and NaN are outside the model, and so
  is rounding, with two exceptions in the shadow march, where the result depends on
  them: the division by zero at its first sample is written out, and the addition
  that advances the ray is rounded to binary32. The unsigned 32-bit counters and
  sizes are \<open>32 word\<close>, so their arithmetic wraps as in the source.
\<close>

type_synonym real32 = real
type_synonym uint32_t = "32 word"

definition skMaxLength :: real32 where
  "skMaxLength = 60"

definition skMinLength :: real32 where
  "skMinLength = 1 / 10000"

definition skSecondaryRayOffset :: real32 where
  "skSecondaryRayOffset = skMinLength * 10"

definition skLargeNumber :: real32 where
  "skLargeNumber = 1000000000000"

definition skSmallNumber :: real32 where
  "skSmallNumber = 1 / 100000"

subsection \<open>NMath\<close>

definition min_val :: "'a::linorder \<Rightarrow> 'a \<Rightarrow> 'a" where
  "min_val lhs rhs = (if lhs < rhs then lhs else rhs)"

definition max_val :: "'a::linorder \<Rightarrow> 'a \<Rightarrow> 'a" where
  "max_val lhs rhs = (if lhs > rhs then lhs else rhs)"

definition lerp :: "real32 \<Rightarrow> real32 \<Rightarrow> real32 \<Rightarrow> real32" where
  "lerp a b t = a + ((b - a) * t)"

definition AbsF :: "real32 \<Rightarrow> real32" where
  "AbsF v = \<bar>v\<bar>"

definition floorf :: "real32 \<Rightarrow> real32" where
  "floorf v = of_int \<lfloor>v\<rfloor>"

text \<open>
  \<^verbatim>\<open>static_cast<uint32_t>\<close> of a float truncates towards zero. C++ defines it for
  values in \<open>[0, 2^32)\<close> only; elsewhere the model wraps modulo \<open>2^32\<close>.
\<close>

definition to_uint32 :: "real32 \<Rightarrow> uint32_t" where
  "to_uint32 v = word_of_int (if 0 \<le> v then \<lfloor>v\<rfloor> else \<lceil>v\<rceil>)"

section \<open>Vectors, transforms and colours\<close>

datatype CVector3f = CVector3f (mX: real32) (mY: real32) (mZ: real32)

definition vneg :: "CVector3f \<Rightarrow> CVector3f" where
  "vneg v = CVector3f (- mX v) (- mY v) (- mZ v)"

definition vadd :: "CVector3f \<Rightarrow> CVector3f \<Rightarrow> CVector3f" where
  "vadd lhs rhs = CVector3f (mX lhs + mX rhs) (mY lhs + mY rhs) (mZ lhs + mZ rhs)"

definition vsub :: "CVector3f \<Rightarrow> CVector3f \<Rightarrow> CVector3f" where
  "vsub lhs rhs = CVector3f (mX lhs - mX rhs) (mY lhs - mY rhs) (mZ lhs - mZ rhs)"

definition vscale :: "CVector3f \<Rightarrow> real32 \<Rightarrow> CVector3f" where
  "vscale lhs rhs = CVector3f (mX lhs * rhs) (mY lhs * rhs) (mZ lhs * rhs)"

definition vdiv :: "CVector3f \<Rightarrow> real32 \<Rightarrow> CVector3f" where
  "vdiv lhs rhs = CVector3f (mX lhs / rhs) (mY lhs / rhs) (mZ lhs / rhs)"

definition Dot :: "CVector3f \<Rightarrow> CVector3f \<Rightarrow> real32" where
  "Dot lhs rhs = mX lhs * mX rhs + mY lhs * mY rhs + mZ lhs * mZ rhs"

definition CrossProductWith :: "CVector3f \<Rightarrow> CVector3f \<Rightarrow> CVector3f" where
  "CrossProductWith lhs rhs = CVector3f
     (mY lhs * mZ rhs - mZ lhs * mY rhs)
     (mZ lhs * mX rhs - mX lhs * mZ rhs)
     (mX lhs * mY rhs - mY lhs * mX rhs)"

definition Magnitude :: "CVector3f \<Rightarrow> real32" where
  "Magnitude v = sqrt (Dot v v)"

text \<open>
  \<^verbatim>\<open>AsNormalized\<close> multiplies by the reciprocal square root, refined by one
  Newton-Raphson step; \<^verbatim>\<open>_mm_rsqrt_ss\<close> is read as the exact reciprocal root.
\<close>

definition AsNormalized :: "CVector3f \<Rightarrow> CVector3f" where
  "AsNormalized v =
     (let magSquared = Dot v v;
          rsqrt = 1 / sqrt magSquared;
          halfVal = (1 / 2) * magSquared;
          inverseMagnitude = rsqrt * (3 / 2 - rsqrt * rsqrt * halfVal)
      in CVector3f (mX v * inverseMagnitude) (mY v * inverseMagnitude) (mZ v * inverseMagnitude))"

definition Zero :: CVector3f where
  "Zero = CVector3f 0 0 0"

definition Up :: CVector3f where
  "Up = CVector3f 0 1 0"

datatype CTransform4f = CTransform4f
  (m00: real32) (m01: real32) (m02: real32) (m03: real32)
  (m10: real32) (m11: real32) (m12: real32) (m13: real32)
  (m20: real32) (m21: real32) (m22: real32) (m23: real32)

definition Identity :: CTransform4f where
  "Identity = CTransform4f 1 0 0 0  0 1 0 0  0 0 1 0"

definition FromVectors :: "CVector3f \<Rightarrow> CVector3f \<Rightarrow> CVector3f \<Rightarrow> CVector3f \<Rightarrow> CTransform4f" where
  "FromVectors x y z t = CTransform4f
     (mX x) (mX y) (mX z) (mX t)
     (mY x) (mY y) (mY z) (mY t)
     (mZ x) (mZ y) (mZ z) (mZ t)"

definition Translate :: "real32 \<Rightarrow> real32 \<Rightarrow> real32 \<Rightarrow> CTransform4f" where
  "Translate x y z = CTransform4f 1 0 0 x  0 1 0 y  0 0 1 z"

definition Scale :: "real32 \<Rightarrow> real32 \<Rightarrow> real32 \<Rightarrow> CTransform4f" where
  "Scale x y z = CTransform4f x 0 0 0  0 y 0 0  0 0 z 0"

text \<open>\<^verbatim>\<open>CTransform4f::operator*(CVector3f)\<close>: the affine map applied to a point.\<close>

definition transform_point :: "CTransform4f \<Rightarrow> CVector3f \<Rightarrow> CVector3f" where
  "transform_point t rhs = CVector3f
     (m00 t * mX rhs + m01 t * mY rhs + m02 t * mZ rhs + m03 t)
     (m10 t * mX rhs + m11 t * mY rhs + m12 t * mZ rhs + m13 t)
     (m20 t * mX rhs + m21 t * mY rhs + m22 t * mZ rhs + m23 t)"

definition GetXBasis :: "CTransform4f \<Rightarrow> CVector3f" where
  "GetXBasis t = CVector3f (m00 t) (m10 t) (m20 t)"

definition GetYBasis :: "CTransform4f \<Rightarrow> CVector3f" where
  "GetYBasis t = CVector3f (m01 t) (m11 t) (m21 t)"

definition GetZBasis :: "CTransform4f \<Rightarrow> CVector3f" where
  "GetZBasis t = CVector3f (m02 t) (m12 t) (m22 t)"

definition GetTranslation :: "CTransform4f \<Rightarrow> CVector3f" where
  "GetTranslation t = CVector3f (m03 t) (m13 t) (m23 t)"

definition GetBackward :: "CTransform4f \<Rightarrow> CVector3f" where
  "GetBackward t = CVector3f (m02 t) (m12 t) (m22 t)"

definition GetDeterminant :: "CTransform4f \<Rightarrow> real32" where
  "GetDeterminant t =
     m00 t * (m11 t * m22 t - m12 t * m21 t)
   + m01 t * (m12 t * m20 t - m10 t * m22 t)
   + m02 t * (m10 t * m21 t - m11 t * m20 t)"

definition GetInverse :: "CTransform4f \<Rightarrow> CTransform4f" where
  "GetInverse t =
     (let determinant = GetDeterminant t in
      if \<bar>determinant\<bar> < 1 / 100000 then Identity
      else
        let inverseDet = 1 / determinant;
            t03 = - ((m12 t * m23 t - m13 t * m22 t) * m01 t
                     - (m02 t * m23 t - m03 t * m22 t) * m11 t
                     + (m02 t * m13 t - m03 t * m12 t) * m21 t);
            t13 = ((m12 t * m23 t - m13 t * m22 t) * m00 t
                   - (m02 t * m23 t - m03 t * m22 t) * m10 t
                   + (m02 t * m13 t - m03 t * m12 t) * m20 t);
            t23 = - ((m10 t * m21 t - m11 t * m20 t) * m03 t
                     - (m00 t * m21 t - m01 t * m20 t) * m13 t
                     + (m00 t * m11 t - m01 t * m10 t) * m23 t)
        in CTransform4f
             ((m11 t * m22 t - m12 t * m21 t) * inverseDet)
             ((m02 t * m21 t - m01 t * m22 t) * inverseDet)
             ((m01 t * m12 t - m02 t * m11 t) * inverseDet)
             (t03 * inverseDet)
             ((m12 t * m20 t - m10 t * m22 t) * inverseDet)
             ((m00 t * m22 t - m02 t * m20 t) * inverseDet)
             ((m02 t * m10 t - m00 t * m12 t) * inverseDet)
             (t13 * inverseDet)
             ((m10 t * m21 t - m11 t * m20 t) * inverseDet)
             ((m01 t * m20 t - m00 t * m21 t) * inverseDet)
             ((m00 t * m11 t - m01 t * m10 t) * inverseDet)
             (t23 * inverseDet))"

datatype CColor4f = CColor4f (mRed: real32) (mGreen: real32) (mBlue: real32)

definition cadd :: "CColor4f \<Rightarrow> CColor4f \<Rightarrow> CColor4f" where
  "cadd lhs rhs = CColor4f (mRed lhs + mRed rhs) (mGreen lhs + mGreen rhs) (mBlue lhs + mBlue rhs)"

definition cmul :: "CColor4f \<Rightarrow> CColor4f \<Rightarrow> CColor4f" where
  "cmul lhs rhs = CColor4f (mRed lhs * mRed rhs) (mGreen lhs * mGreen rhs) (mBlue lhs * mBlue rhs)"

definition cscale :: "CColor4f \<Rightarrow> real32 \<Rightarrow> CColor4f" where
  "cscale lhs rhs = CColor4f (mRed lhs * rhs) (mGreen lhs * rhs) (mBlue lhs * rhs)"

definition Black :: CColor4f where
  "Black = CColor4f 0 0 0"

definition White :: CColor4f where
  "White = CColor4f 1 1 1"

section \<open>Render objects\<close>

record SSurfaceInfo =
  albedo :: real32
  metallic :: real32
  dielectric :: real32

definition default_surface :: SSurfaceInfo where
  "default_surface = \<lparr>albedo = 1, metallic = 0, dielectric = 0\<rparr>"

text \<open>
  The class hierarchy below \<^verbatim>\<open>CRenderObject\<close> is one datatype of kinds; the fields of
  the base class (transform, cached inverse, surface) sit beside the kind. A composite
  owns the list of its children. The material binding is left out: no distance
  function reads it.
\<close>

datatype render_kind =
    Sphere CVector3f real32
  | Plane CVector3f real32
  | Cube CVector3f
  | Custom "CVector3f \<Rightarrow> real32"
  | Union "render_object list"
  | Intersection "render_object list"
  | Difference "render_object list"
  | SmoothUnion "render_object list" real32
  | Blend "render_object list" real32
and render_object =
    RenderObject (mKind: render_kind) (mTransform: CTransform4f)
      (mInverseTransform: CTransform4f) (mSurfaceInfo: SSurfaceInfo)

definition new_object :: "render_kind \<Rightarrow> render_object" where
  "new_object k = RenderObject k Identity Identity default_surface"

definition SetTransform :: "render_object \<Rightarrow> CTransform4f \<Rightarrow> render_object" where
  "SetTransform obj transform =
     RenderObject (mKind obj) transform (GetInverse transform) (mSurfaceInfo obj)"

definition SetSurfaceInfo :: "render_object \<Rightarrow> SSurfaceInfo \<Rightarrow> render_object" where
  "SetSurfaceInfo obj surfaceInfo =
     RenderObject (mKind obj) (mTransform obj) (mInverseTransform obj) surfaceInfo"

text \<open>The constructors of the primitive classes and of the composites.\<close>

definition CRenderSphere :: "real32 \<Rightarrow> render_object" where
  "CRenderSphere radius = new_object (Sphere Zero radius)"

definition CRenderSphere_at :: "CVector3f \<Rightarrow> real32 \<Rightarrow> render_object" where
  "CRenderSphere_at center radius = new_object (Sphere center radius)"

definition CRenderPlane :: "CVector3f \<Rightarrow> real32 \<Rightarrow> render_object" where
  "CRenderPlane normal height = new_object (Plane normal height)"

definition CRenderCube :: "CVector3f \<Rightarrow> render_object" where
  "CRenderCube sz = new_object (Cube (vscale sz (1 / 2)))"

definition CRenderCube_uniform :: "real32 \<Rightarrow> render_object" where
  "CRenderCube_uniform sz =
     new_object (Cube (CVector3f (sz * (1 / 2)) (sz * (1 / 2)) (sz * (1 / 2))))"

definition CRenderUnion :: "render_object list \<Rightarrow> render_object" where
  "CRenderUnion objects = new_object (Union objects)"

definition CRenderIntersection :: "render_object list \<Rightarrow> render_object" where
  "CRenderIntersection objects = new_object (Intersection objects)"

definition CRenderDifference :: "render_object list \<Rightarrow> render_object" where
  "CRenderDifference objects = new_object (Difference objects)"

definition CRenderSmoothUnion :: "render_object list \<Rightarrow> real32 \<Rightarrow> render_object" where
  "CRenderSmoothUnion objects k = new_object (SmoothUnion objects k)"

definition CRenderBlend :: "render_object list \<Rightarrow> real32 \<Rightarrow> render_object" where
  "CRenderBlend objects k = new_object (Blend objects k)"

subsection \<open>The reductions of the composites\<close>

text \<open>
  Each composite walks its children in order and folds their transformed distances
  into an accumulator. The loops below take the distances in child order; the
  accumulator and the child counter are the loop's local variables.
\<close>

fun Union_loop :: "real32 \<Rightarrow> real32 list \<Rightarrow> real32" where
  "Union_loop minValue [] = minValue"
| "Union_loop minValue (d # ds) = Union_loop (min_val minValue d) ds"

fun Intersection_loop :: "real32 \<Rightarrow> real32 list \<Rightarrow> real32" where
  "Intersection_loop maxValue [] = maxValue"
| "Intersection_loop maxValue (d # ds) = Intersection_loop (max_val maxValue d) ds"

fun Difference_loop :: "real32 \<Rightarrow> int \<Rightarrow> real32 list \<Rightarrow> real32" where
  "Difference_loop maxValue index [] = maxValue"
| "Difference_loop maxValue index (d # ds) =
     (let distance = (if index \<noteq> 0 then - 1 else 1) * d
      in Difference_loop (max_val maxValue distance) (index + 1) ds)"

definition SmoothUnion_op :: "real32 \<Rightarrow> real32 \<Rightarrow> real32 \<Rightarrow> real32" where
  "SmoothUnion_op d1 d2 k =
     (let h = max_val (k - AbsF (d1 - d2)) 0 / k
      in min_val d1 d2 - h * h * h * k * (1 / 6))"

fun SmoothUnion_loop :: "real32 \<Rightarrow> real32 \<Rightarrow> int \<Rightarrow> real32 list \<Rightarrow> real32" where
  "SmoothUnion_loop k minValue index [] = minValue"
| "SmoothUnion_loop k minValue index (d # ds) =
     (if index = 0 then SmoothUnion_loop k d (index + 1) ds
      else SmoothUnion_loop k (SmoothUnion_op minValue d k) (index + 1) ds)"

subsection \<open>Distance functions\<close>

lemma size_child_less: "c \<in> set cs \<Longrightarrow> size c < Suc (size_list size cs)"
  by (induction cs) auto

function (sequential)
  GetDistanceToPoint :: "render_object \<Rightarrow> CVector3f \<Rightarrow> real32" and
  GetTransformedDistanceToPoint :: "render_object \<Rightarrow> CVector3f \<Rightarrow> real32"
where
  "GetDistanceToPoint (RenderObject (Sphere mCenter mRadius) t ti s) point =
     Magnitude (vsub point mCenter) - mRadius"
| "GetDistanceToPoint (RenderObject (Plane mNormal mHeight) t ti s) point =
     Dot mNormal point - mHeight"
| "GetDistanceToPoint (RenderObject (Cube mSize) t ti s) point =
     (let x = AbsF (mX point) - mX mSize;
          y = AbsF (mY point) - mY mSize;
          z = AbsF (mZ point) - mZ mSize;
          d = Magnitude (CVector3f (max_val x 0) (max_val y 0) (max_val z 0));
          du = max_val (max_val (min_val x 0) (min_val y 0)) (min_val z 0)
      in d + du)"
| "GetDistanceToPoint (RenderObject (Custom mCustomFunction) t ti s) point =
     mCustomFunction point"
| "GetDistanceToPoint (RenderObject (Union mObjectList) t ti s) point =
     Union_loop skLargeNumber
       (map (\<lambda>object. GetTransformedDistanceToPoint object point) mObjectList)"
| "GetDistanceToPoint (RenderObject (Intersection mObjectList) t ti s) point =
     Intersection_loop 0
       (map (\<lambda>object. GetTransformedDistanceToPoint object point) mObjectList)"
| "GetDistanceToPoint (RenderObject (Difference mObjectList) t ti s) point =
     Difference_loop 0 0
       (map (\<lambda>object. GetTransformedDistanceToPoint object point) mObjectList)"
| "GetDistanceToPoint (RenderObject (SmoothUnion mObjectList mK) t ti s) point =
     SmoothUnion_loop mK skLargeNumber 0
       (map (\<lambda>object. GetTransformedDistanceToPoint object point) mObjectList)"
| "GetDistanceToPoint (RenderObject (Blend mObjectList mK) t ti s) point =
     (let lowerPosition = to_uint32 (floorf mK);
          upperPosition = lowerPosition + 1;
          d0 = (if unat lowerPosition < length mObjectList
                then GetTransformedDistanceToPoint (mObjectList ! unat lowerPosition)
                       (transform_point ti point)
                else skLargeNumber);
          d1 = (if unat upperPosition < length mObjectList
                then GetTransformedDistanceToPoint (mObjectList ! unat upperPosition)
                       (transform_point ti point)
                else skLargeNumber)
      in lerp d0 d1 (mK - floorf mK))"
| "GetTransformedDistanceToPoint obj point =
     GetDistanceToPoint obj (transform_point (mInverseTransform obj) point)"
  by pat_completeness auto

termination
proof (relation "measure (\<lambda>x. case x of
          Inl (obj, p) \<Rightarrow> 2 * size obj
        | Inr (obj, p) \<Rightarrow> 2 * size obj + 1)", goal_cases)
  case 1
  show ?case by simp
next
  case (2 cs t ti s point c)
  then show ?case using size_child_less [of c cs] by simp
next
  case (3 cs t ti s point c)
  then show ?case using size_child_less [of c cs] by simp
next
  case (4 cs t ti s point c)
  then show ?case using size_child_less [of c cs] by simp
next
  case (5 cs k t ti s point c)
  then show ?case using size_child_less [of c cs] by simp
next
  case (6 cs k t ti s point lo)
  then show ?case using size_child_less [of "cs ! unat lo" cs] by simp
next
  case (7 cs k t ti s point lo up)
  then show ?case using size_child_less [of "cs ! unat up" cs] by simp
next
  case 8
  show ?case by simp
qed

section \<open>Lights\<close>

datatype CLightObject =
    AmbientLight CColor4f
  | PointLight CVector3f CColor4f
  | DirectionalLight CVector3f CColor4f

definition CAmbientLightObject :: "CColor4f \<Rightarrow> CLightObject" where
  "CAmbientLightObject color = AmbientLight color"

definition CPointLightObject :: "CVector3f \<Rightarrow> CColor4f \<Rightarrow> CLightObject" where
  "CPointLightObject position color = PointLight position color"

text \<open>The constructor of the directional light stores the normalised direction.\<close>

definition CDirectionalLightObject :: "CVector3f \<Rightarrow> CColor4f \<Rightarrow> CLightObject" where
  "CDirectionalLightObject direction color = DirectionalLight (AsNormalized direction) color"

fun CalculateValueAtPosition :: "CLightObject \<Rightarrow> CVector3f \<Rightarrow> CVector3f \<Rightarrow> CColor4f" where
  "CalculateValueAtPosition (AmbientLight mColor) position surfaceNormal = mColor"
| "CalculateValueAtPosition (PointLight mPosition mColor) position surfaceNormal =
     (let direction = AsNormalized (vsub mPosition position);
          angle = Dot surfaceNormal direction
      in if angle < 0 then Black else cscale mColor angle)"
| "CalculateValueAtPosition (DirectionalLight mDirection mColor) position surfaceNormal =
     (let angle = Dot surfaceNormal mDirection
      in if angle < 0 then Black else cscale mColor angle)"

fun Light_GetPosition :: "CLightObject \<Rightarrow> CVector3f" where
  "Light_GetPosition (AmbientLight mColor) = Zero"
| "Light_GetPosition (PointLight mPosition mColor) = mPosition"
| "Light_GetPosition (DirectionalLight mDirection mColor) = Zero"

fun CastsShadow :: "CLightObject \<Rightarrow> bool" where
  "CastsShadow (AmbientLight mColor) = False"
| "CastsShadow (PointLight mPosition mColor) = True"
| "CastsShadow (DirectionalLight mDirection mColor) = False"

section \<open>Rays, camera and scene\<close>

datatype CInfiniteRay = CInfiniteRay (GetPosition: CVector3f) (GetDirection: CVector3f)

definition GetPositionAlongRay :: "CInfiniteRay \<Rightarrow> real32 \<Rightarrow> CVector3f" where
  "GetPositionAlongRay ray t = vadd (GetPosition ray) (vscale (GetDirection ray) t)"

datatype CRayResult = CRayResult (mCollisionPoint: CVector3f) (mTime: real32) (mHit: bool)

definition NoResults :: CRayResult where
  "NoResults = CRayResult Zero skLargeNumber False"

definition skDefaultWidth :: uint32_t where
  "skDefaultWidth = 640"

definition skDefaultHeight :: uint32_t where
  "skDefaultHeight = 480"

definition gkPi32 :: real32 where
  "gkPi32 = pi"

record CCamera =
  mCameraTransform :: CTransform4f
  mSceneWidth :: uint32_t
  mSceneHeight :: uint32_t
  mCameraScale :: real32
  mCameraFOV :: real32
  mVerticalFOV :: bool

definition CalculateParameters ::
  "CCamera \<Rightarrow> CVector3f \<Rightarrow> CVector3f \<Rightarrow> real32 \<Rightarrow> bool \<Rightarrow> CCamera" where
  "CalculateParameters cam cameraCenter cameraLookAt cameraFOV verticalFOV =
     (let worldUp = Up;
          fovScale = tan (cameraFOV * ((gkPi32 / 180) / 2)) * 2;
          scale = (if verticalFOV then fovScale / real (unat (mSceneHeight cam))
                   else fovScale / real (unat (mSceneWidth cam)));
          cameraForward = AsNormalized (vsub cameraLookAt cameraCenter);
          cameraRight = AsNormalized (CrossProductWith cameraForward worldUp);
          cameraUp = CrossProductWith cameraRight cameraForward
      in cam\<lparr>mCameraScale := scale,
              mCameraTransform := FromVectors cameraRight cameraUp cameraForward cameraCenter\<rparr>)"

definition CCamera_new :: "CVector3f \<Rightarrow> CVector3f \<Rightarrow> real32 \<Rightarrow> bool \<Rightarrow> CCamera" where
  "CCamera_new cameraCenter cameraLookAt cameraFOV verticalFOV =
     CalculateParameters
       \<lparr>mCameraTransform = Identity, mSceneWidth = skDefaultWidth,
        mSceneHeight = skDefaultHeight, mCameraScale = 1,
        mCameraFOV = cameraFOV, mVerticalFOV = verticalFOV\<rparr>
       cameraCenter cameraLookAt cameraFOV verticalFOV"

definition DefaultCamera :: CCamera where
  "DefaultCamera = CCamera_new Zero (CVector3f 0 0 1) 45 False"

definition Camera_SetSceneSize :: "CCamera \<Rightarrow> uint32_t \<Rightarrow> uint32_t \<Rightarrow> CCamera" where
  "Camera_SetSceneSize cam sceneWidth sceneHeight =
     CalculateParameters (cam\<lparr>mSceneWidth := sceneWidth, mSceneHeight := sceneHeight\<rparr>)
       (GetTranslation (mCameraTransform cam))
       (vadd (GetTranslation (mCameraTransform cam)) (GetBackward (mCameraTransform cam)))
       (mCameraFOV cam) (mVerticalFOV cam)"

definition GetRayForPosition :: "CCamera \<Rightarrow> uint32_t \<Rightarrow> uint32_t \<Rightarrow> CInfiniteRay" where
  "GetRayForPosition cam x y =
     (let hFactor = (real (unat x) - real (unat (mSceneWidth cam)) * (1 / 2)) * mCameraScale cam;
          vFactor = - (real (unat y) - real (unat (mSceneHeight cam)) * (1 / 2)) * mCameraScale cam;
          direction = vadd (vadd (GetZBasis (mCameraTransform cam))
                                 (vscale (GetXBasis (mCameraTransform cam)) hFactor))
                           (vscale (GetYBasis (mCameraTransform cam)) vFactor)
      in CInfiniteRay (GetTranslation (mCameraTransform cam)) (AsNormalized direction))"

record CRenderScene =
  mCamera :: CCamera
  mObjects :: "render_object list"
  mLights :: "CLightObject list"

definition CRenderScene_new :: CRenderScene where
  "CRenderScene_new = \<lparr>mCamera = DefaultCamera, mObjects = [], mLights = []\<rparr>"

definition AddObject :: "CRenderScene \<Rightarrow> render_object \<Rightarrow> CRenderScene" where
  "AddObject sc obj = sc\<lparr>mObjects := mObjects sc @ [obj]\<rparr>"

definition AddLight :: "CRenderScene \<Rightarrow> CLightObject \<Rightarrow> CRenderScene" where
  "AddLight sc light = sc\<lparr>mLights := mLights sc @ [light]\<rparr>"

definition Scene_SetSceneSize :: "CRenderScene \<Rightarrow> uint32_t \<Rightarrow> uint32_t \<Rightarrow> CRenderScene" where
  "Scene_SetSceneSize sc width height =
     sc\<lparr>mCamera := Camera_SetSceneSize (mCamera sc) width height\<rparr>"

definition Reset :: "CRenderScene \<Rightarrow> CRenderScene" where
  "Reset sc = sc\<lparr>mCamera := DefaultCamera, mObjects := [], mLights := []\<rparr>"

fun MinDistance_loop :: "real32 \<Rightarrow> real32 list \<Rightarrow> real32" where
  "MinDistance_loop t [] = t"
| "MinDistance_loop t (d # ds) = MinDistance_loop (min_val t d) ds"

definition GetMinDistanceAtPoint :: "CRenderScene \<Rightarrow> CVector3f \<Rightarrow> real32" where
  "GetMinDistanceAtPoint sc point =
     MinDistance_loop skLargeNumber
       (map (\<lambda>pObject. GetTransformedDistanceToPoint pObject point) (mObjects sc))"

section \<open>The ray marcher\<close>

text \<open>
  The local variables of \<^verbatim>\<open>MarchRay\<close>'s loop: the distance travelled, the iteration
  counter and the smallest scene distance seen.
\<close>

datatype march_state = MarchState (ms_time: real32) (ms_count: int) (ms_minDistance: real32)

text \<open>
  One pass through the loop, from the test of the \<^verbatim>\<open>while\<close>: \<open>Inl\<close> is a
  \<^verbatim>\<open>return\<close>, \<open>Inr\<close> the state at the next test. The counter is incremented by
  the second operand of \<^verbatim>\<open>||\<close>, which runs only when the first operand is false;
  on the returning branch its value is dead.
\<close>

definition MarchRay_body ::
  "CRenderScene \<Rightarrow> CInfiniteRay \<Rightarrow> real32 \<Rightarrow> march_state \<Rightarrow> CRayResult + march_state" where
  "MarchRay_body sc ray maxLength st =
     (if ms_time st < maxLength then
        let currentPoint = GetPositionAlongRay ray (ms_time st);
            distanceToNearestObject = GetMinDistanceAtPoint sc currentPoint;
            minDistance = min_val (ms_minDistance st) distanceToNearestObject
        in if \<bar>distanceToNearestObject\<bar> < skMinLength \<or> ms_count st > 200
           then Inl (CRayResult currentPoint (ms_time st) True)
           else Inr (MarchState (ms_time st + distanceToNearestObject) (ms_count st + 1) minDistance)
      else Inl (CRayResult Zero (ms_minDistance st) False))"

lemma MarchRay_body_count:
  "MarchRay_body sc ray maxLength st = Inr st' \<Longrightarrow>
     ms_count st \<le> 200 \<and> ms_count st' = ms_count st + 1"
  by (auto simp: MarchRay_body_def Let_def split: if_splits)

function MarchRay_loop ::
  "CRenderScene \<Rightarrow> CInfiniteRay \<Rightarrow> real32 \<Rightarrow> march_state \<Rightarrow> CRayResult" where
  "MarchRay_loop sc ray maxLength st =
     (case MarchRay_body sc ray maxLength st of
        Inl result \<Rightarrow> result
      | Inr st' \<Rightarrow> MarchRay_loop sc ray maxLength st')"
  by pat_completeness auto
termination
proof (relation "measure (\<lambda>(sc, ray, maxLength, st). nat (201 - ms_count st))", goal_cases)
  case 1
  show ?case by simp
next
  case (2 sc ray maxLength st st')
  then show ?case using MarchRay_body_count [of sc ray maxLength st st'] by simp
qed

declare MarchRay_loop.simps [simp del]

definition MarchRay :: "CRenderScene \<Rightarrow> CInfiniteRay \<Rightarrow> real32 \<Rightarrow> CRayResult" where
  "MarchRay sc ray maxLength =
     MarchRay_loop sc ray maxLength (MarchState skMinLength 0 skLargeNumber)"

text \<open>The same loop cut off after a given number of passes: \<open>None\<close> when it has not returned by then.\<close>

fun MarchRay_passes ::
  "nat \<Rightarrow> CRenderScene \<Rightarrow> CInfiniteRay \<Rightarrow> real32 \<Rightarrow> march_state \<Rightarrow> CRayResult option" where
  "MarchRay_passes 0 sc ray maxLength st = None"
| "MarchRay_passes (Suc n) sc ray maxLength st =
     (case MarchRay_body sc ray maxLength st of
        Inl result \<Rightarrow> Some result
      | Inr st' \<Rightarrow> MarchRay_passes n sc ray maxLength st')"

subsection \<open>Shadow rays\<close>

text \<open>
  The shadow march has no step counter: it leaves its loop only when a sample is
  close to a surface or when the distance travelled reaches the maximal length, so
  whether it returns depends on what \<^verbatim>\<open>time += distanceToNearestObject\<close> does in
  binary32. That one addition is therefore rounded in the model. \<open>round32\<close> rounds a
  real to the nearest binary32 number, ties to the even significand (24 bits, 23 of
  them stored; the least exponent is -126); numbers beyond the largest binary32
  number are not treated apart.
\<close>

definition binade :: "real \<Rightarrow> int" where
  "binade x = max \<lfloor>log 2 \<bar>x\<bar>\<rfloor> (- 126)"

definition ulp32 :: "real \<Rightarrow> real" where
  "ulp32 x = 2 powr (of_int (binade x) - 23)"

definition round_half_even :: "real \<Rightarrow> int" where
  "round_half_even y =
     (let n = \<lfloor>y\<rfloor>; r = y - of_int n
      in if r < 1 / 2 then n
         else if 1 / 2 < r then n + 1
         else if even n then n else n + 1)"

definition round32 :: "real \<Rightarrow> real" where
  "round32 x = (if x = 0 then 0 else of_int (round_half_even (x / ulp32 x)) * ulp32 x)"

definition fadd32 :: "real32 \<Rightarrow> real32 \<Rightarrow> real32" where
  "fadd32 a b = round32 (a + b)"

text \<open>
  The update of \<^verbatim>\<open>shadow\<close> divides by the distance travelled, which is 0 at the first
  sample. With a positive numerator the IEEE quotient is \<open>+\<infinity>\<close> and
  \<^verbatim>\<open>min_val\<close> keeps \<^verbatim>\<open>shadow\<close>; that case is written out. (A numerator that is not
  positive at \<open>time = 0\<close> needs \<open>penumbra \<le> 0\<close>; its quotient is NaN or
  \<open>-\<infinity>\<close>, which the model does not represent.)
\<close>

definition shadow_update :: "real32 \<Rightarrow> real32 \<Rightarrow> real32 \<Rightarrow> real32 \<Rightarrow> real32" where
  "shadow_update shadow penumbra distanceToNearestObject t =
     (if t = 0 \<and> 0 < penumbra * distanceToNearestObject then shadow
      else min_val shadow (penumbra * distanceToNearestObject / t))"

text \<open>The loop of \<^verbatim>\<open>MarchShadowRay\<close>; \<open>None\<close> is a march that does not return.\<close>

partial_function (option) MarchShadowRay_loop ::
  "CRenderScene \<Rightarrow> CInfiniteRay \<Rightarrow> real32 \<Rightarrow> real32 \<Rightarrow> real32 \<Rightarrow> real32 \<Rightarrow> real32 option" where
  "MarchShadowRay_loop sc ray maxLength penumbra shadow t =
     (if t < maxLength then
        let currentPoint = GetPositionAlongRay ray t;
            distanceToNearestObject = GetMinDistanceAtPoint sc currentPoint
        in if distanceToNearestObject < skMinLength then Some 0
           else MarchShadowRay_loop sc ray maxLength penumbra
                  (shadow_update shadow penumbra distanceToNearestObject t)
                  (fadd32 t distanceToNearestObject)
      else Some shadow)"

definition MarchShadowRay ::
  "CRenderScene \<Rightarrow> CInfiniteRay \<Rightarrow> real32 \<Rightarrow> real32 \<Rightarrow> real32 option" where
  "MarchShadowRay sc ray maxLength penumbra =
     MarchShadowRay_loop sc ray maxLength penumbra 1 0"

text \<open>
  A scene for the shadow march: a wall across the \<open>x\<close> axis at distance 2048 whose
  normal is one unit in the last place short of unit length, as a normalised binary32
  vector commonly is (\<open>16777215 / 16777216 = 1 - 2^-24\<close>); and the ray from the
  origin along the \<open>x\<close> axis. Every number of this march is a binary32 number.
\<close>

definition far_wall :: CRenderScene where
  "far_wall = AddObject CRenderScene_new
                (CRenderPlane (CVector3f (- (16777215 / 16777216)) 0 0) (- 2048))"

definition ray_x :: CInfiniteRay where
  "ray_x = CInfiniteRay Zero (CVector3f 1 0 0)"

section \<open>The renderer\<close>

record SWorkArea =
  mMinX :: uint32_t
  mMinY :: uint32_t
  mMaxX :: uint32_t
  mMaxY :: uint32_t
  mJobDone :: bool

definition SWorkArea_new :: "uint32_t \<Rightarrow> uint32_t \<Rightarrow> uint32_t \<Rightarrow> uint32_t \<Rightarrow> SWorkArea" where
  "SWorkArea_new minx miny maxx maxy =
     \<lparr>mMinX = minx, mMinY = miny, mMaxX = maxx, mMaxY = maxy, mJobDone = False\<rparr>"

text \<open>
  The state of \<^verbatim>\<open>CRenderer\<close> as one thread sees it between two calls. The pixel
  buffer is the heap block of the last allocation, one cell per colour; \<open>None\<close> is a
  cell not written since. The worker threads, the mutexes and the condition
  variable are not state of the model: \<open>mNotified\<close> counts the calls of
  \<^verbatim>\<open>mSleepControl.notify_all\<close>, the only way workers are woken, and an
  operation that has to wait for a worker thread has no result (\<open>None\<close>).
\<close>

record CRenderer =
  mBufferWidth :: uint32_t
  mBufferHeight :: uint32_t
  mTime :: real32
  mBuffer :: "CColor4f option list"
  mScene :: CRenderScene
  mWorkAreas :: "SWorkArea list"
  mCurrentWorkArea :: uint32_t
  mShutdown :: bool
  mNotified :: nat

text \<open>
  The constructor. \<^verbatim>\<open>mCurrentWorkArea\<close> has no initialiser in the source; it is
  not read before \<^verbatim>\<open>RenderScene\<close> sets it as long as the tile list is empty.
\<close>

definition CRenderer_new :: CRenderer where
  "CRenderer_new =
     \<lparr>mBufferWidth = 0, mBufferHeight = 0, mTime = 0, mBuffer = [],
      mScene = CRenderScene_new, mWorkAreas = [], mCurrentWorkArea = 0,
      mShutdown = False, mNotified = 0\<rparr>"

fun IsDone_loop :: "SWorkArea list \<Rightarrow> bool" where
  "IsDone_loop [] = True"
| "IsDone_loop (workArea # rest) = (if \<not> mJobDone workArea then False else IsDone_loop rest)"

definition IsDone :: "CRenderer \<Rightarrow> bool" where
  "IsDone r = IsDone_loop (mWorkAreas r)"

text \<open>
  \<^verbatim>\<open>Update\<close>; the scene builder \<^verbatim>\<open>NScene::BuildScene\<close> (the included scene file)
  is the parameter \<open>BuildScene\<close>.
\<close>

definition Update ::
  "(CRenderScene \<Rightarrow> real32 \<Rightarrow> CRenderScene) \<Rightarrow> CRenderer \<Rightarrow> real32 \<Rightarrow> CRenderer" where
  "Update BuildScene r deltaTime =
     (if IsDone r then
        let t = mTime r + deltaTime;
            sc = BuildScene (Reset (mScene r)) t
        in r\<lparr>mTime := t, mScene := Scene_SetSceneSize sc (mBufferWidth r) (mBufferHeight r)\<rparr>
      else r)"

text \<open>
  \<^verbatim>\<open>Cancel\<close> first declares the tiles from the cursor on done. The cursor is a
  32-bit counter compared with the length of the list, so the loop is partial.
\<close>

partial_function (option) Cancel_loop ::
  "SWorkArea list \<Rightarrow> uint32_t \<Rightarrow> (SWorkArea list \<times> uint32_t) option" where
  "Cancel_loop workAreas current =
     (if unat current < length workAreas
      then Cancel_loop
             (workAreas[unat current := (workAreas ! unat current)\<lparr>mJobDone := True\<rparr>])
             (current + 1)
      else Some (workAreas, current))"

text \<open>
  Then it yields until \<^verbatim>\<open>IsDone\<close>. A tile that a worker has taken and not finished
  is finished by that worker only: in such a state the call waits for another thread.
\<close>

definition Cancel :: "CRenderer \<Rightarrow> CRenderer option" where
  "Cancel r =
     (case Cancel_loop (mWorkAreas r) (mCurrentWorkArea r) of
        None \<Rightarrow> None
      | Some (workAreas, current) \<Rightarrow>
          let r' = r\<lparr>mWorkAreas := workAreas, mCurrentWorkArea := current\<rparr>
          in if IsDone r' then Some r' else None)"

text \<open>
  \<^verbatim>\<open>SetPixelColor\<close>. The cell index is computed in 32 bits. A list update past the
  end changes nothing, where the source would write outside its block; the index is
  shown to be inside the block further down.
\<close>

definition SetPixelColor :: "CRenderer \<Rightarrow> uint32_t \<Rightarrow> uint32_t \<Rightarrow> CColor4f \<Rightarrow> CRenderer" where
  "SetPixelColor r x y color =
     (if x < mBufferWidth r \<and> y < mBufferHeight r
      then r\<lparr>mBuffer := (mBuffer r)[unat (y * mBufferWidth r + x) := Some color]\<rparr>
      else r)"

text \<open>The values of a counter that starts at 0 and is incremented while it is below \<open>n\<close>.\<close>

definition counter_values :: "uint32_t \<Rightarrow> uint32_t list" where
  "counter_values n = map of_nat [0..<unat n]"

definition fill_buffer :: "CRenderer \<Rightarrow> uint32_t \<Rightarrow> uint32_t \<Rightarrow> CRenderer" where
  "fill_buffer r width height =
     fold (\<lambda>x r. fold (\<lambda>y r. SetPixelColor r x y (CColor4f (1 / 2) (6 / 10) (7 / 10)))
                    (counter_values height) r)
          (counter_values width) r"

text \<open>
  \<^verbatim>\<open>ResizeBuffer\<close>. The new block has \<open>width * height\<close> cells (the byte count is
  computed in \<^verbatim>\<open>size_t\<close>; its overflow and a failing allocation are not modelled).
\<close>

definition ResizeBuffer :: "CRenderer \<Rightarrow> uint32_t \<Rightarrow> uint32_t \<Rightarrow> CRenderer option" where
  "ResizeBuffer r width height =
     (case (if \<not> IsDone r then Cancel r else Some r) of
        None \<Rightarrow> None
      | Some r1 \<Rightarrow>
          let r2 = (if width \<noteq> mBufferWidth r1 \<or> height \<noteq> mBufferHeight r1
                    then fill_buffer
                           (r1\<lparr>mBuffer := replicate (unat width * unat height) None,
                               mBufferWidth := width, mBufferHeight := height\<rparr>)
                           width height
                    else r1)
          in Some (r2\<lparr>mScene := Scene_SetSceneSize (mScene r2) width height\<rparr>))"

text \<open>
  \<^verbatim>\<open>RenderScene\<close>. The number of jobs per core is the one of the release build
  (\<^verbatim>\<open>NDEBUG\<close>); \<^verbatim>\<open>std::thread::hardware_concurrency()\<close> is the parameter
  \<open>numProcessors\<close>. The tile loops advance 32-bit counters by the step sizes and
  are partial.
\<close>

definition skJobCoreMultiplier :: uint32_t where
  "skJobCoreMultiplier = 5"

partial_function (option) RenderScene_x_loop ::
  "uint32_t \<Rightarrow> uint32_t \<Rightarrow> uint32_t \<Rightarrow> uint32_t \<Rightarrow> uint32_t \<Rightarrow> uint32_t \<Rightarrow> SWorkArea list
     \<Rightarrow> SWorkArea list option" where
  "RenderScene_x_loop width height hStepSize vStepSize y x workAreas =
     (if x < width
      then RenderScene_x_loop width height hStepSize vStepSize y (x + hStepSize)
             (workAreas @ [SWorkArea_new x y (min_val width (x + hStepSize))
                                             (min_val height (y + vStepSize))])
      else Some workAreas)"

partial_function (option) RenderScene_y_loop ::
  "uint32_t \<Rightarrow> uint32_t \<Rightarrow> uint32_t \<Rightarrow> uint32_t \<Rightarrow> uint32_t \<Rightarrow> SWorkArea list
     \<Rightarrow> SWorkArea list option" where
  "RenderScene_y_loop width height hStepSize vStepSize y workAreas =
     (if y < height
      then Option.bind (RenderScene_x_loop width height hStepSize vStepSize y 0 workAreas)
             (\<lambda>workAreas'. RenderScene_y_loop width height hStepSize vStepSize
                               (y + vStepSize) workAreas')
      else Some workAreas)"

definition RenderScene :: "uint32_t \<Rightarrow> CRenderer \<Rightarrow> CRenderer option" where
  "RenderScene numProcessors r =
     (if IsDone r then
        let jobCount = numProcessors * skJobCoreMultiplier;
            edgeJobCount = to_uint32 (max_val (sqrt (real (unat jobCount))) 1);
            hStepSize = max_val 1 (mBufferWidth r div edgeJobCount);
            vStepSize = max_val 1 (mBufferHeight r div edgeJobCount)
        in case RenderScene_y_loop (mBufferWidth r) (mBufferHeight r) hStepSize vStepSize 0 [] of
             None \<Rightarrow> None
           | Some workAreas \<Rightarrow>
               Some (r\<lparr>mWorkAreas := workAreas, mCurrentWorkArea := 0,
                       mNotified := mNotified r + 1\<rparr>)
      else Some r)"

text \<open>\<^verbatim>\<open>NextWorkArea\<close>: the index of the tile handed out, if any, and the new state.\<close>

definition NextWorkArea :: "CRenderer \<Rightarrow> nat option \<times> CRenderer" where
  "NextWorkArea r =
     (if mWorkAreas r \<noteq> [] \<and> unat (mCurrentWorkArea r) < length (mWorkAreas r)
      then (Some (unat (mCurrentWorkArea r)),
            r\<lparr>mCurrentWorkArea := mCurrentWorkArea r + 1\<rparr>)
      else (None, r))"

text \<open>
  What a worker does with the tile at position \<open>index\<close>: it walks the pixels row by row
  with the stride \<^verbatim>\<open>skInitialStepSize\<close> = 1, writes each colour and marks the tile
  done. The colour of a pixel (\<^verbatim>\<open>DoIntersection\<close> of the scene) is the parameter
  \<open>shade\<close>.
\<close>

definition skInitialStepSize :: uint32_t where
  "skInitialStepSize = 1"

definition pixel_values :: "uint32_t \<Rightarrow> uint32_t \<Rightarrow> uint32_t list" where
  "pixel_values lo hi = map of_nat [unat lo..<unat hi]"

definition ProcessWorkArea ::
  "(uint32_t \<Rightarrow> uint32_t \<Rightarrow> CColor4f) \<Rightarrow> CRenderer \<Rightarrow> nat \<Rightarrow> CRenderer" where
  "ProcessWorkArea shade r index =
     (let workArea = mWorkAreas r ! index;
          r' = fold (\<lambda>y r. fold (\<lambda>x r.
                   let color = shade x y
                   in fold (\<lambda>i r. fold (\<lambda>j r. SetPixelColor r (x + i) (y + j) color)
                                     (counter_values skInitialStepSize) r)
                           (counter_values skInitialStepSize) r)
                 (pixel_values (mMinX workArea) (mMaxX workArea)) r)
               (pixel_values (mMinY workArea) (mMaxY workArea)) r
      in r'\<lparr>mWorkAreas :=
             (mWorkAreas r')[index := (mWorkAreas r' ! index)\<lparr>mJobDone := True\<rparr>]\<rparr>)"

text \<open>
  One round of the worker loop: take the next tile and process it, or find none (the
  worker then sleeps on the condition variable; the state is as \<^verbatim>\<open>NextWorkArea\<close>
  left it).
\<close>

definition Worker_step :: "(uint32_t \<Rightarrow> uint32_t \<Rightarrow> CColor4f) \<Rightarrow> CRenderer \<Rightarrow> CRenderer" where
  "Worker_step shade r =
     (case NextWorkArea r of
        (Some index, r') \<Rightarrow> ProcessWorkArea shade r' index
      | (None, r') \<Rightarrow> r')"

subsection \<open>The size message of the window\<close>






subsection \<open>Invariant and example states\<close>

text \<open>The pixel buffer holds one cell per pixel of the stored size.\<close>

definition buffer_ok :: "CRenderer \<Rightarrow> bool" where
  "buffer_ok r = (length (mBuffer r) = unat (mBufferWidth r) * unat (mBufferHeight r))"

text \<open>Two states that differ in the contents of the pixel buffer at most.\<close>

definition only_buffer_changed :: "CRenderer \<Rightarrow> CRenderer \<Rightarrow> bool" where
  "only_buffer_changed r r' =
     (r' = r\<lparr>mBuffer := mBuffer r'\<rparr> \<and> length (mBuffer r') = length (mBuffer r))"

text \<open>The tiles from index \<open>n\<close> on declared done.\<close>

definition done_from :: "nat \<Rightarrow> SWorkArea list \<Rightarrow> SWorkArea list" where
  "done_from n ws = take n ws @ map (\<lambda>w. w\<lparr>mJobDone := True\<rparr>) (drop n ws)"

text \<open>
  A renderer after construction and a resize to 2 by 2 pixels, and the same renderer
  after \<^verbatim>\<open>RenderScene\<close> has enqueued a frame that no worker has started (with
  \<^verbatim>\<open>hardware_concurrency\<close> reporting 0 the frame is a single tile).
\<close>

definition idle_2x2 :: CRenderer where
  "idle_2x2 = (case ResizeBuffer CRenderer_new 2 2 of Some r \<Rightarrow> r | None \<Rightarrow> CRenderer_new)"

definition frame_in_flight :: CRenderer where
  "frame_in_flight = (case RenderScene 0 idle_2x2 of Some r \<Rightarrow> r | None \<Rightarrow> CRenderer_new)"


text \<open>
  The cells a call of \<^verbatim>\<open>SetPixelColor\<close> writes (one or none), and the cells a worker
  writes while it processes the tile at position \<open>index\<close>, in the order of its loops.
\<close>

definition SetPixelColor_writes :: "CRenderer \<Rightarrow> uint32_t \<Rightarrow> uint32_t \<Rightarrow> nat list" where
  "SetPixelColor_writes r x y =
     (if x < mBufferWidth r \<and> y < mBufferHeight r
      then [unat (y * mBufferWidth r + x)] else [])"

definition ProcessWorkArea_writes :: "CRenderer \<Rightarrow> nat \<Rightarrow> nat list" where
  "ProcessWorkArea_writes r index =
     (let workArea = mWorkAreas r ! index
      in concat (map (\<lambda>y. concat (map (\<lambda>x.
           concat (map (\<lambda>i. concat (map (\<lambda>j. SetPixelColor_writes r (x + i) (y + j))
                                         (counter_values skInitialStepSize)))
                       (counter_values skInitialStepSize)))
           (pixel_values (mMinX workArea) (mMaxX workArea))))
         (pixel_values (mMinY workArea) (mMaxY workArea))))"

section \<open>Properties of the distance functions\<close>

lemma min_val_min: "min_val a b = min a (b::real)"
  by (simp add: min_val_def min_def)

lemma max_val_max: "max_val a b = max a (b::real)"
  by (simp add: max_val_def max_def)

lemma Magnitude_sqrt: "Magnitude (CVector3f a b c) = sqrt (a\<^sup>2 + b\<^sup>2 + c\<^sup>2)"
  by (simp add: Magnitude_def Dot_def power2_eq_square)

text \<open>
  C7. The distance of a cube with half-extents \<open>half\<close> is the Euclidean norm of the
  component-wise positive part of \<open>d = |point| - half\<close> plus \<open>min (max d.x d.y d.z) 0\<close>;
  the inside term the code computes, \<open>max (min d.x 0) (min d.y 0) (min d.z 0)\<close>,
  is that same number for all inputs.
\<close>

theorem Cube_distance:
  "GetDistanceToPoint (RenderObject (Cube half) t ti s) point =
     sqrt ((max (\<bar>mX point\<bar> - mX half) 0)\<^sup>2
           + (max (\<bar>mY point\<bar> - mY half) 0)\<^sup>2
           + (max (\<bar>mZ point\<bar> - mZ half) 0)\<^sup>2)
     + min (Max {\<bar>mX point\<bar> - mX half, \<bar>mY point\<bar> - mY half, \<bar>mZ point\<bar> - mZ half}) 0
   \<and> max_val (max_val (min_val dx 0) (min_val dy 0)) (min_val dz 0)
       = min (max (max dx dy) dz) (0::real)"
  by (simp add: Let_def AbsF_def Magnitude_sqrt min_val_min max_val_max) (simp add: min_def max_def)



lemma fold_max_max: "fold max ds (max a b) = max a (fold max ds (b::real))"
proof (induction ds arbitrary: b)
  case Nil
  show ?case by simp
next
  case (Cons d ds)
  have "fold max (d # ds) (max a b) = fold max ds (max d (max a b))"
    by simp
  also have "max d (max a b) = max a (max d b)"
    by (rule max.left_commute)
  also have "fold max ds (max a (max d b)) = max a (fold max ds (max d b))"
    by (rule Cons.IH)
  finally show ?case by simp
qed

text \<open>
  Two checks of the embedding: the inverse of a translation is the opposite
  translation, and the difference of the cube of edge 2 and the unit sphere has
  distance 1 at the origin (the origin is in the part that is cut away).
\<close>

lemma GetInverse_Translate: "GetInverse (Translate 1 2 3) = Translate (- 1) (- 2) (- 3)"
  by (simp add: GetInverse_def Translate_def GetDeterminant_def Let_def)

lemma Difference_cube_sphere_origin:
  "GetDistanceToPoint (CRenderDifference [CRenderCube_uniform 2, CRenderSphere 1]) Zero = 1"
  by (simp add: CRenderDifference_def CRenderCube_uniform_def CRenderSphere_def new_object_def
        Zero_def Identity_def transform_point_def Let_def AbsF_def Magnitude_sqrt Dot_def vsub_def
        min_val_min max_val_max)


text \<open>
  What the Difference loop computes: past the first child the counter is nonzero, so
  every later distance enters negated; the accumulator starts at 0, and 0 stays a
  term of the maximum.
\<close>

lemma Difference_loop_tail:
  "index \<noteq> 0 \<Longrightarrow> 0 \<le> index \<Longrightarrow> Difference_loop acc index ds = fold max (map uminus ds) acc"
  by (induction ds arbitrary: acc index) (simp_all add: max_val_max max.commute)

lemma Difference_distance_code:
  "GetDistanceToPoint (RenderObject (Difference (c # cs)) t ti s) p
     = max 0 (Max (set (GetTransformedDistanceToPoint c p
                   # map (\<lambda>c. - GetTransformedDistanceToPoint c p) cs)))"
proof -
  let ?d = "GetTransformedDistanceToPoint c p"
  let ?ds = "map (\<lambda>c. GetTransformedDistanceToPoint c p) cs"
  have "GetDistanceToPoint (RenderObject (Difference (c # cs)) t ti s) p
          = Difference_loop 0 0 (?d # ?ds)"
    by (simp only: GetDistanceToPoint.simps list.map)
  also have "\<dots> = Difference_loop (max 0 ?d) 1 ?ds"
    by (simp add: max_val_max del: GetTransformedDistanceToPoint.simps)
  also have "\<dots> = fold max (map uminus ?ds) (max 0 ?d)"
    by (rule Difference_loop_tail) simp_all
  also have "\<dots> = max 0 (fold max (map uminus ?ds) ?d)"
    by (rule fold_max_max)
  also have "\<dots> = max 0 (Max (set (?d # map uminus ?ds)))"
    by (simp only: Max.set_eq_fold)
  finally show ?thesis
    by (simp only: map_map comp_def)
qed

text \<open>
  C2. The Difference of a cube of edge 4 and the half-space below \<open>y = -5\<close>, sampled
  at the origin: the cube's distance is \<open>-2\<close>, the plane's is 5, so the maximum of the
  first distance and the negated second is \<open>-2\<close> (the origin is inside the
  difference). The code returns 0: the seed of its reduction is a further term.
\<close>

theorem Difference_seed_failing_input:
  "GetDistanceToPoint
     (CRenderDifference [CRenderCube_uniform 4, CRenderPlane (CVector3f 0 1 0) (- 5)]) Zero = 0
   \<and> max (GetTransformedDistanceToPoint (CRenderCube_uniform 4) Zero)
         (- GetTransformedDistanceToPoint (CRenderPlane (CVector3f 0 1 0) (- 5)) Zero) = - 2"
  by (simp add: CRenderDifference_def CRenderCube_uniform_def CRenderPlane_def new_object_def
        Zero_def Identity_def transform_point_def Let_def AbsF_def Magnitude_sqrt Dot_def
        min_val_min max_val_max)

text \<open>
  The indices of Blend: for \<open>0 \<le> k < 2^32 - 1\<close> the two positions are \<open>\<lfloor>k\<rfloor>\<close> and
  \<open>\<lfloor>k\<rfloor> + 1\<close>, and a position past the end of the child list yields the sentinel.
  The children are sampled at the point moved once more by the composite's own
  inverse transform.
\<close>

lemma to_uint32_floorf:
  assumes "0 \<le> k" "k < 4294967295"
  shows "unat (to_uint32 (floorf k)) = nat \<lfloor>k\<rfloor>"
    and "unat (to_uint32 (floorf k) + 1) = nat \<lfloor>k\<rfloor> + 1"
proof -
  have f0: "0 \<le> \<lfloor>k\<rfloor>" using assms by simp
  have f1: "\<lfloor>k\<rfloor> < 4294967295" using assms by (simp add: floor_less_iff)
  have eq: "to_uint32 (floorf k) = word_of_int \<lfloor>k\<rfloor>"
    using f0 by (simp add: to_uint32_def floorf_def)
  have u: "unat (word_of_int \<lfloor>k\<rfloor> :: 32 word) = nat \<lfloor>k\<rfloor>"
    using f0 f1 by (simp add: unat_eq_nat_uint uint_word_of_int take_bit_eq_mod)
  show "unat (to_uint32 (floorf k)) = nat \<lfloor>k\<rfloor>"
    by (simp only: eq u)
  have "unat (word_of_int \<lfloor>k\<rfloor> + 1 :: 32 word) = (nat \<lfloor>k\<rfloor> + 1) mod 2 ^ 32"
    by (simp add: unat_word_ariths u)
  also have "\<dots> = nat \<lfloor>k\<rfloor> + 1"
  proof -
    have "nat \<lfloor>k\<rfloor> + 1 < 4294967296" using f0 f1 by linarith
    then show ?thesis by simp
  qed
  finally show "unat (to_uint32 (floorf k) + 1) = nat \<lfloor>k\<rfloor> + 1"
    by (simp only: eq)
qed

lemma Blend_distance_code:
  assumes "0 \<le> k" "k < 4294967295"
  shows "GetDistanceToPoint (RenderObject (Blend cs k) t ti s) p =
     lerp (if nat \<lfloor>k\<rfloor> < length cs
           then GetTransformedDistanceToPoint (cs ! nat \<lfloor>k\<rfloor>) (transform_point ti p)
           else skLargeNumber)
          (if nat \<lfloor>k\<rfloor> + 1 < length cs
           then GetTransformedDistanceToPoint (cs ! (nat \<lfloor>k\<rfloor> + 1)) (transform_point ti p)
           else skLargeNumber)
          (k - of_int \<lfloor>k\<rfloor>)"
  using to_uint32_floorf [OF assms]
  by (simp add: Let_def floorf_def del: GetTransformedDistanceToPoint.simps)

text \<open>
  C5. A Blend with \<open>k = 0\<close> over the single child "half-space \<open>x \<le> 0\<close>", moved by
  the translation \<open>(5, 0, 0)\<close>, sampled at the local origin. The child's transformed
  distance at that point is 0, so the interpolation of the claim is
  \<open>lerp 0 sentinel 0 = 0\<close>. The code moves the point by the composite's inverse
  transform before it asks the child, samples the child at \<open>(-5, 0, 0)\<close> and
  returns \<open>-5\<close>.
\<close>

theorem Blend_double_transform_failing_input:
  "GetDistanceToPoint
     (SetTransform (CRenderBlend [CRenderPlane (CVector3f 1 0 0) 0] 0) (Translate 5 0 0)) Zero = - 5
   \<and> lerp (GetTransformedDistanceToPoint (CRenderPlane (CVector3f 1 0 0) 0) Zero)
        skLargeNumber (0 - floorf 0) = 0"
  by (simp add: SetTransform_def CRenderBlend_def CRenderPlane_def new_object_def
        Translate_def GetInverse_def GetDeterminant_def
        Zero_def Identity_def transform_point_def Let_def Dot_def lerp_def floorf_def to_uint32_def)

section \<open>Properties of the lights\<close>

text \<open>
  What the code computes for a directional light: the angle between the surface
  normal and the stored unit direction itself. The contribution is black when
  \<open>n \<cdot> dir_unit \<le> 0\<close> and \<open>color * (n \<cdot> dir_unit)\<close> otherwise; the stored
  direction is not negated.
\<close>

lemma Directional_contribution:
  "CalculateValueAtPosition (DirectionalLight dir_unit color) p n =
     (if Dot n dir_unit \<le> 0 then Black else cscale color (Dot n dir_unit))"
  by (simp add: Let_def Black_def cscale_def)

lemma CDirectionalLightObject_down:
  "CDirectionalLightObject (CVector3f 0 (- 1) 0) c = DirectionalLight (CVector3f 0 (- 1) 0) c"
  by (simp add: CDirectionalLightObject_def AsNormalized_def Dot_def Let_def)

text \<open>
  C1. The directional light of the scene file, with direction \<open>(0, -1, 0)\<close> and colour
  \<open>(0.1, 0.1, 0.2)\<close>, on the floor of that scene (normal \<open>(0, 1, 0)\<close>, at height
  \<open>-5\<close>). Against the negated stored direction, the direction the light comes from,
  the angle is 1 and the contribution is the colour of the light. The code takes the
  angle against the stored direction and returns black.
\<close>

theorem Directional_scene_light_failing_input:
  "CalculateValueAtPosition
     (CDirectionalLightObject (CVector3f 0 (- 1) 0) (CColor4f (1 / 10) (1 / 10) (2 / 10)))
     (CVector3f 0 (- 5) 0) (CVector3f 0 1 0) = Black
   \<and> Dot (CVector3f 0 1 0) (vneg (AsNormalized (CVector3f 0 (- 1) 0))) = 1
   \<and> cscale (CColor4f (1 / 10) (1 / 10) (2 / 10))
        (Dot (CVector3f 0 1 0) (vneg (AsNormalized (CVector3f 0 (- 1) 0))))
      = CColor4f (1 / 10) (1 / 10) (2 / 10)"
  by (simp add: CDirectionalLightObject_def AsNormalized_def Let_def Dot_def vneg_def
        Black_def cscale_def)

section \<open>Properties of the ray marcher\<close>

lemma MarchRay_passes_enough:
  "nat (201 - ms_count st) < n \<Longrightarrow>
     MarchRay_passes n sc ray maxLength st = Some (MarchRay_loop sc ray maxLength st)"
proof (induction n arbitrary: st)
  case 0
  then show ?case by simp
next
  case (Suc n)
  show ?case
  proof (cases "MarchRay_body sc ray maxLength st")
    case (Inl result)
    then show ?thesis by (simp add: MarchRay_loop.simps [of sc ray maxLength st])
  next
    case (Inr st')
    from MarchRay_body_count [OF Inr] Suc.prems
    have "nat (201 - ms_count st') < n" by linarith
    then have "MarchRay_passes n sc ray maxLength st' = Some (MarchRay_loop sc ray maxLength st')"
      by (rule Suc.IH)
    with Inr show ?thesis by (simp add: MarchRay_loop.simps [of sc ray maxLength st])
  qed
qed

text \<open>
  C4. For every scene, ray and maximal length the primary march returns: cut off after
  202 passes through its loop, it has already produced the result of the unbounded
  loop. A pass returns a hit when the absolute scene distance is below
  \<open>skMinLength\<close> or the counter has passed 200, returns a miss when the distance
  travelled is no longer below the maximal length, and otherwise advances by the
  scene distance and counts one more.
\<close>

theorem MarchRay_terminates:
  "MarchRay_passes 202 sc ray maxLength (MarchState skMinLength 0 skLargeNumber)
     = Some (MarchRay sc ray maxLength)
   \<and> MarchRay_body sc ray maxLength (MarchState t count minDistance) =
       (if t < maxLength then
          if \<bar>GetMinDistanceAtPoint sc (GetPositionAlongRay ray t)\<bar> < 1 / 10000 \<or> 200 < count
          then Inl (CRayResult (GetPositionAlongRay ray t) t True)
          else Inr (MarchState (t + GetMinDistanceAtPoint sc (GetPositionAlongRay ray t))
                      (count + 1)
                      (min minDistance (GetMinDistanceAtPoint sc (GetPositionAlongRay ray t))))
        else Inl (CRayResult Zero minDistance False))"
proof
  show "MarchRay_passes 202 sc ray maxLength (MarchState skMinLength 0 skLargeNumber)
     = Some (MarchRay sc ray maxLength)"
    unfolding MarchRay_def by (rule MarchRay_passes_enough) simp
next
  show "MarchRay_body sc ray maxLength (MarchState t count minDistance) =
       (if t < maxLength then
          if \<bar>GetMinDistanceAtPoint sc (GetPositionAlongRay ray t)\<bar> < 1 / 10000 \<or> 200 < count
          then Inl (CRayResult (GetPositionAlongRay ray t) t True)
          else Inr (MarchState (t + GetMinDistanceAtPoint sc (GetPositionAlongRay ray t))
                      (count + 1)
                      (min minDistance (GetMinDistanceAtPoint sc (GetPositionAlongRay ray t))))
        else Inl (CRayResult Zero minDistance False))"
    by (simp add: MarchRay_body_def Let_def skMinLength_def min_val_min)
qed

text \<open>
  Rounding to binary32 between 2048 and 4096, where neighbouring numbers are
  \<open>1 / 4096\<close> apart: 2048 is a binary32 number, and \<open>2048 + 1 / 8192\<close> lies half-way
  between 2048 and its successor and is rounded to 2048, whose significand is even.
\<close>

lemma binade_2048:
  assumes "2048 \<le> x" "x < 4096"
  shows "binade x = 11"
proof -
  have pos: "0 < x" using assms by simp
  have "11 \<le> log 2 x"
    using pos assms(1) by (simp add: le_log_iff)
  moreover have "log 2 x < 12"
    using pos assms(2) by (simp add: log_less_iff)
  ultimately have "\<lfloor>log 2 x\<rfloor> = 11" by linarith
  with pos show ?thesis by (simp add: binade_def)
qed

lemma ulp32_2048:
  assumes "2048 \<le> x" "x < 4096"
  shows "ulp32 x = 1 / 4096"
  by (simp add: ulp32_def binade_2048 [OF assms] powr_minus_divide)

lemma round32_2048: "round32 2048 = 2048"
  by (simp add: round32_def ulp32_2048 round_half_even_def)

lemma round32_stall: "round32 (2048 + 1 / 8192) = 2048"
proof -
  have u: "ulp32 (16777217 / 8192) = 1 / 4096"
    by (rule ulp32_2048) simp_all
  have f: "\<lfloor>16777217 / 2 :: real\<rfloor> = 8388608" by linarith
  have h: "round_half_even (16777217 / 2) = 8388608"
    by (simp add: round_half_even_def f Let_def)
  show ?thesis
    by (simp add: round32_def u h)
qed

lemma round32_2048_lost:
  assumes "0 \<le> d" "d < 1 / 8192"
  shows "fadd32 2048 d = 2048"
proof -
  have u: "ulp32 (2048 + d) = 1 / 4096"
    using assms by (intro ulp32_2048) simp_all
  have q: "(2048 + d) / (1 / 4096) = 8388608 + 4096 * d" by simp
  have small: "0 \<le> 4096 * d" "4096 * d < 1 / 2" using assms by simp_all
  then have f: "\<lfloor>8388608 + 4096 * d\<rfloor> = 8388608" by linarith
  have h: "round_half_even (8388608 + 4096 * d) = 8388608"
    using small by (simp add: round_half_even_def f Let_def)
  have "2048 + d \<noteq> 0" using assms by simp
  then have "round32 (2048 + d) = of_int (round_half_even ((2048 + d) / ulp32 (2048 + d))) * ulp32 (2048 + d)"
    by (simp only: round32_def if_False)
  also have "\<dots> = 2048" by (simp only: u q h)
  finally show ?thesis by (simp only: fadd32_def)
qed

lemma fadd32_2048_stall:
  assumes "0 \<le> d" "d \<le> 1 / 8192"
  shows "fadd32 2048 d = 2048"
proof (cases "d = 1 / 8192")
  case True
  then show ?thesis by (simp only: fadd32_def round32_stall)
next
  case False
  with assms have "d < 1 / 8192" by simp
  with assms(1) show ?thesis by (rule round32_2048_lost)
qed

lemma round_half_even_nonneg: "0 \<le> y \<Longrightarrow> 0 \<le> round_half_even y"
  by (simp add: round_half_even_def Let_def)

lemma round32_nonneg: "0 \<le> x \<Longrightarrow> 0 \<le> round32 x"
proof -
  assume "0 \<le> x"
  have u: "0 < ulp32 x" by (simp add: ulp32_def)
  with \<open>0 \<le> x\<close> have "0 \<le> x / ulp32 x" by simp
  then have "0 \<le> round_half_even (x / ulp32 x)" by (rule round_half_even_nonneg)
  with u show ?thesis by (simp add: round32_def)
qed

text \<open>
  What holds of every shadow march that returns, with a positive penumbra constant:
  the value is in \<open>[0, 1]\<close>; it is 0 when the sample at hand is closer than
  \<open>skMinLength\<close>, and the current value of \<open>shadow\<close> when the maximal length is reached.
\<close>

lemma shadow_update_range:
  assumes "0 < k" "skMinLength \<le> d" "0 \<le> t" "0 < shadow" "shadow \<le> 1"
  shows "0 < shadow_update shadow k d t \<and> shadow_update shadow k d t \<le> 1"
proof -
  have d: "0 < d" using assms(2) by (simp add: skMinLength_def)
  have kd: "0 < k * d" using assms(1) d by simp
  show ?thesis
  proof (cases "t = 0")
    case True
    with kd assms show ?thesis by (simp add: shadow_update_def)
  next
    case False
    with assms(3) have "0 < t" by simp
    with kd have q: "0 < k * d / t" by simp
    have eq: "shadow_update shadow k d t = min shadow (k * d / t)"
      using False by (simp add: shadow_update_def min_val_min)
    have "0 < min shadow (k * d / t)" using q assms(4) by simp
    moreover have "min shadow (k * d / t) \<le> 1" using assms(5) by (rule min.coboundedI1)
    ultimately show ?thesis by (simp only: eq)
  qed
qed

lemma MarchShadowRay_loop_range:
  assumes returned: "MarchShadowRay_loop sc ray maxLength k shadow t = Some v"
  shows "0 < k \<and> 0 \<le> t \<and> 0 < shadow \<and> shadow \<le> 1 \<longrightarrow> 0 \<le> v \<and> v \<le> 1"
proof (rule MarchShadowRay_loop.raw_induct
         [where P = "\<lambda>sc ray maxLength k shadow t v.
                       0 < k \<and> 0 \<le> t \<and> 0 < shadow \<and> shadow \<le> 1 \<longrightarrow> 0 \<le> v \<and> v \<le> 1",
          OF _ returned], rule impI)
  fix loop :: "CRenderScene \<Rightarrow> CInfiniteRay \<Rightarrow> real \<Rightarrow> real \<Rightarrow> real \<Rightarrow> real \<Rightarrow> real option"
    and sc ray and maxLength k shadow t v :: real
  assume IH: "\<And>sc' ray' maxLength' k' shadow' t' v'.
                loop sc' ray' maxLength' k' shadow' t' = Some v' \<Longrightarrow>
                0 < k' \<and> 0 \<le> t' \<and> 0 < shadow' \<and> shadow' \<le> 1 \<longrightarrow> 0 \<le> v' \<and> v' \<le> 1"
  assume body: "(if t < maxLength then
        let currentPoint = GetPositionAlongRay ray t;
            distanceToNearestObject = GetMinDistanceAtPoint sc currentPoint
        in if distanceToNearestObject < skMinLength then Some 0
           else loop sc ray maxLength k
                  (shadow_update shadow k distanceToNearestObject t)
                  (fadd32 t distanceToNearestObject)
      else Some shadow) = Some (v::real)"
  assume pre: "0 < k \<and> 0 \<le> t \<and> 0 < shadow \<and> shadow \<le> 1"
  let ?d = "GetMinDistanceAtPoint sc (GetPositionAlongRay ray t)"
  show "0 \<le> v \<and> v \<le> 1"
  proof (cases "t < maxLength \<and> \<not> ?d < skMinLength")
    case False
    with body have "v = 0 \<or> v = shadow" by (auto simp: Let_def split: if_splits)
    with pre show ?thesis by auto
  next
    case True
    then have d: "skMinLength \<le> ?d" by simp
    from body True
    have next_pass: "loop sc ray maxLength k (shadow_update shadow k ?d t) (fadd32 t ?d) = Some v"
      by (simp add: Let_def)
    have upd: "0 < shadow_update shadow k ?d t \<and> shadow_update shadow k ?d t \<le> 1"
      using pre d by (intro shadow_update_range) simp_all
    have "0 \<le> t + ?d" using pre d by (simp add: skMinLength_def)
    then have "0 \<le> fadd32 t ?d" unfolding fadd32_def by (rule round32_nonneg)
    with IH [OF next_pass] pre upd show ?thesis by simp
  qed
qed

lemma MarchShadowRay_loop_occluded_now:
  "t < maxLength \<Longrightarrow> GetMinDistanceAtPoint sc (GetPositionAlongRay ray t) < skMinLength \<Longrightarrow>
     MarchShadowRay_loop sc ray maxLength k shadow t = Some 0"
  by (subst MarchShadowRay_loop.simps) (simp add: Let_def)

lemma MarchShadowRay_loop_arrived:
  "\<not> t < maxLength \<Longrightarrow> MarchShadowRay_loop sc ray maxLength k shadow t = Some shadow"
  by (subst MarchShadowRay_loop.simps) simp

text \<open>
  A march that has travelled 2048 and is still short of the maximal length makes no
  progress when the scene distance there is at least \<open>skMinLength\<close> and at most
  \<open>1 / 8192\<close>: the sum is rounded to 2048, and the march does not return.
\<close>

lemma MarchShadowRay_loop_stalls_aux:
  assumes returned: "MarchShadowRay_loop sc ray maxLength k shadow t = Some v"
  shows "\<not> (t = 2048 \<and> 2048 < maxLength
            \<and> skMinLength \<le> GetMinDistanceAtPoint sc (GetPositionAlongRay ray 2048)
            \<and> GetMinDistanceAtPoint sc (GetPositionAlongRay ray 2048) \<le> 1 / 8192)"
proof (rule MarchShadowRay_loop.raw_induct
         [where P = "\<lambda>sc ray maxLength k shadow t v.
            \<not> (t = 2048 \<and> 2048 < maxLength
               \<and> skMinLength \<le> GetMinDistanceAtPoint sc (GetPositionAlongRay ray 2048)
               \<and> GetMinDistanceAtPoint sc (GetPositionAlongRay ray 2048) \<le> 1 / 8192)",
          OF _ returned], rule notI)
  fix loop :: "CRenderScene \<Rightarrow> CInfiniteRay \<Rightarrow> real \<Rightarrow> real \<Rightarrow> real \<Rightarrow> real \<Rightarrow> real option"
    and sc ray and maxLength k shadow t v :: real
  assume IH: "\<And>sc' ray' maxLength' k' shadow' t' v'.
                loop sc' ray' maxLength' k' shadow' t' = Some v' \<Longrightarrow>
                \<not> (t' = 2048 \<and> 2048 < maxLength'
                   \<and> skMinLength \<le> GetMinDistanceAtPoint sc' (GetPositionAlongRay ray' 2048)
                   \<and> GetMinDistanceAtPoint sc' (GetPositionAlongRay ray' 2048) \<le> 1 / 8192)"
  assume body: "(if t < maxLength then
        let currentPoint = GetPositionAlongRay ray t;
            distanceToNearestObject = GetMinDistanceAtPoint sc currentPoint
        in if distanceToNearestObject < skMinLength then Some 0
           else loop sc ray maxLength k
                  (shadow_update shadow k distanceToNearestObject t)
                  (fadd32 t distanceToNearestObject)
      else Some shadow) = Some (v::real)"
  assume s: "t = 2048 \<and> 2048 < maxLength
            \<and> skMinLength \<le> GetMinDistanceAtPoint sc (GetPositionAlongRay ray 2048)
            \<and> GetMinDistanceAtPoint sc (GetPositionAlongRay ray 2048) \<le> 1 / 8192"
  let ?d = "GetMinDistanceAtPoint sc (GetPositionAlongRay ray 2048)"
  have "0 \<le> ?d" using s by (simp add: skMinLength_def)
  then have a: "fadd32 2048 ?d = 2048"
    using s by (intro fadd32_2048_stall) simp_all
  from body s
  have "loop sc ray maxLength k (shadow_update shadow k ?d 2048) 2048 = Some v"
    by (simp add: a Let_def)
  from IH [OF this] s show False by simp
qed

lemma MarchShadowRay_loop_stalls:
  assumes "2048 < maxLength"
    and "skMinLength \<le> GetMinDistanceAtPoint sc (GetPositionAlongRay ray 2048)"
    and "GetMinDistanceAtPoint sc (GetPositionAlongRay ray 2048) \<le> 1 / 8192"
  shows "MarchShadowRay_loop sc ray maxLength k shadow 2048 = None"
proof (cases "MarchShadowRay_loop sc ray maxLength k shadow 2048")
  case None
  then show ?thesis .
next
  case (Some v)
  from MarchShadowRay_loop_stalls_aux [OF Some] assms show ?thesis by simp
qed

text \<open>
  The march towards the far wall. The first sample is 2048 away, the second
  \<open>1 / 8192\<close> (not below \<open>skMinLength\<close>); adding that to 2048 gives 2048 again, so
  every later pass finds the loop in the state of the second one.
\<close>

lemma far_wall_distance:
  "GetMinDistanceAtPoint far_wall (GetPositionAlongRay ray_x 0) = 2048"
  "GetMinDistanceAtPoint far_wall (GetPositionAlongRay ray_x 2048) = 1 / 8192"
  "GetMinDistanceAtPoint far_wall (GetPositionAlongRay ray_x (2048 + 1 / 8192)) = 1 / 137438953472"
  by (simp_all add: far_wall_def ray_x_def GetMinDistanceAtPoint_def AddObject_def CRenderScene_new_def
        CRenderPlane_def new_object_def GetPositionAlongRay_def Zero_def vadd_def vscale_def
        Identity_def transform_point_def Dot_def min_val_def skLargeNumber_def)

lemma far_wall_stalled:
  assumes returned: "MarchShadowRay_loop sc ray maxLength k shadow t = Some v"
  shows "\<not> (sc = far_wall \<and> ray = ray_x \<and> maxLength = 4096 \<and> t = 2048)"
proof (rule MarchShadowRay_loop.raw_induct
         [where P = "\<lambda>sc ray maxLength k shadow t v.
                       \<not> (sc = far_wall \<and> ray = ray_x \<and> maxLength = 4096 \<and> t = 2048)",
          OF _ returned], rule notI)
  fix loop :: "CRenderScene \<Rightarrow> CInfiniteRay \<Rightarrow> real \<Rightarrow> real \<Rightarrow> real \<Rightarrow> real \<Rightarrow> real option"
    and sc ray and maxLength k shadow t v :: real
  assume IH: "\<And>sc' ray' maxLength' k' shadow' t' v'.
                loop sc' ray' maxLength' k' shadow' t' = Some v' \<Longrightarrow>
                \<not> (sc' = far_wall \<and> ray' = ray_x \<and> maxLength' = 4096 \<and> t' = 2048)"
  assume body: "(if t < maxLength then
        let currentPoint = GetPositionAlongRay ray t;
            distanceToNearestObject = GetMinDistanceAtPoint sc currentPoint
        in if distanceToNearestObject < skMinLength then Some 0
           else loop sc ray maxLength k
                  (shadow_update shadow k distanceToNearestObject t)
                  (fadd32 t distanceToNearestObject)
      else Some shadow) = Some (v::real)"
  assume s: "sc = far_wall \<and> ray = ray_x \<and> maxLength = 4096 \<and> t = 2048"
  have a: "fadd32 2048 (1 / 8192) = 2048"
    by (simp only: fadd32_def round32_stall)
  from body s
  have "loop far_wall ray_x 4096 k (shadow_update shadow k (1 / 8192) 2048) 2048 = Some v"
    by (simp add: far_wall_distance a Let_def skMinLength_def)
  from IH [OF this] show False by simp
qed

lemma far_wall_first_pass:
  "MarchShadowRay far_wall ray_x maxLength 24
     = (if 0 < maxLength then MarchShadowRay_loop far_wall ray_x maxLength 24 1 2048 else Some 1)"
proof -
  have a0: "fadd32 0 2048 = 2048"
    by (simp add: fadd32_def round32_2048)
  show ?thesis
    unfolding MarchShadowRay_def
    by (subst MarchShadowRay_loop.simps)
       (simp add: far_wall_distance a0 Let_def skMinLength_def shadow_update_def)
qed

text \<open>
  C6. The shadow march from the origin towards a light 4096 away, behind the far
  wall, with the penumbra constant 24. The march does not return: after the first
  step the distance travelled is 2048, the scene distance there is \<open>1 / 8192\<close>, and
  the rounded sum is 2048 again. With the exact sum the next sample would be closer
  than \<open>skMinLength\<close> and the march would return 0, a value in \<open>[0, 1]\<close>.
\<close>

theorem MarchShadowRay_far_wall_failing_input:
  "MarchShadowRay far_wall ray_x 4096 24 = None
   \<and> fadd32 0 2048 = 2048 \<and> fadd32 2048 (1 / 8192) = 2048
   \<and> \<not> GetMinDistanceAtPoint far_wall (GetPositionAlongRay ray_x 2048) < skMinLength
   \<and> GetMinDistanceAtPoint far_wall (GetPositionAlongRay ray_x (2048 + 1 / 8192)) < skMinLength"
proof -
  have "MarchShadowRay_loop far_wall ray_x 4096 24 1 2048 \<noteq> Some v" for v
    using far_wall_stalled [of far_wall ray_x 4096 24 1 2048 v] by auto
  then have "MarchShadowRay_loop far_wall ray_x 4096 24 1 2048 = None"
    by (cases "MarchShadowRay_loop far_wall ray_x 4096 24 1 2048") auto
  then have never: "MarchShadowRay far_wall ray_x 4096 24 = None"
    by (simp add: far_wall_first_pass)
  have first: "fadd32 0 2048 = 2048"
    by (simp add: fadd32_def round32_2048)
  have stall: "fadd32 2048 (1 / 8192) = 2048"
    by (simp only: fadd32_def round32_stall)
  have clear: "\<not> GetMinDistanceAtPoint far_wall (GetPositionAlongRay ray_x 2048) < skMinLength"
    by (simp add: far_wall_distance(2) skMinLength_def)
  have "(1 / 137438953472 :: real) < skMinLength"
    by (simp add: skMinLength_def)
  then have exact: "GetMinDistanceAtPoint far_wall (GetPositionAlongRay ray_x (2048 + 1 / 8192))
                      < skMinLength"
    by (simp only: far_wall_distance(3))
  from never first stall clear exact show ?thesis
    by (intro conjI)
qed

text \<open>
  Two marches that do return: towards a light 10 away in front of the far wall the
  result is 1; from the centre of a unit sphere the first sample is inside and the
  result is 0.
\<close>

lemma MarchShadowRay_far_wall_near_light:
  "MarchShadowRay far_wall ray_x 10 24 = Some 1"
  by (simp add: far_wall_first_pass MarchShadowRay_loop_arrived)

lemma MarchShadowRay_inside_sphere:
  "MarchShadowRay (AddObject CRenderScene_new (CRenderSphere 1)) ray_x 10 24 = Some 0"
  unfolding MarchShadowRay_def
  by (rule MarchShadowRay_loop_occluded_now)
     (simp_all add: Let_def GetMinDistanceAtPoint_def CRenderScene_new_def AddObject_def
        CRenderSphere_def new_object_def GetPositionAlongRay_def ray_x_def Zero_def vadd_def
        vscale_def vsub_def Identity_def transform_point_def Magnitude_sqrt min_val_min
        skLargeNumber_def skMinLength_def)

section \<open>Properties of the renderer\<close>

lemma IsDone_loop_list_all: "IsDone_loop ws = list_all mJobDone ws"
  by (induction ws) simp_all

text \<open>
  C8. While some tile of the current list is not done, \<^verbatim>\<open>RenderScene\<close> returns the
  state it was given (the tile list, the cursor and everything else unchanged, no
  \<^verbatim>\<open>notify_all\<close> counted), and \<^verbatim>\<open>Update\<close> returns it as well (time and scene
  unchanged).
\<close>

theorem not_done_noop:
  "\<not> IsDone r \<Longrightarrow>
     RenderScene numProcessors r = Some r \<and> Update BuildScene r deltaTime = r"
  by (simp add: RenderScene_def Update_def)

lemma only_buffer_changed_refl: "only_buffer_changed r r"
  by (simp add: only_buffer_changed_def)

lemma only_buffer_changed_trans:
  "only_buffer_changed r r' \<Longrightarrow> only_buffer_changed r' r'' \<Longrightarrow> only_buffer_changed r r''"
  unfolding only_buffer_changed_def
  by (metis CRenderer.surjective CRenderer.update_convs(4))

lemma only_buffer_changed_SetPixelColor: "only_buffer_changed r (SetPixelColor r x y c)"
  by (simp add: only_buffer_changed_def SetPixelColor_def)

lemma only_buffer_changed_fold:
  "(\<And>a r. only_buffer_changed r (f a r)) \<Longrightarrow> only_buffer_changed r (fold f xs r)"
proof (induction xs arbitrary: r)
  case Nil
  show ?case by (simp add: only_buffer_changed_refl)
next
  case (Cons a xs)
  have "only_buffer_changed r (f a r)" by (rule Cons.prems)
  moreover have "only_buffer_changed (f a r) (fold f xs (f a r))"
    by (rule Cons.IH) (rule Cons.prems)
  ultimately show ?case
    by (simp add: only_buffer_changed_trans)
qed

lemma only_buffer_changed_fill_buffer: "only_buffer_changed r (fill_buffer r w h)"
  unfolding fill_buffer_def
  by (intro only_buffer_changed_fold only_buffer_changed_SetPixelColor)

lemma ResizeBuffer_done:
  assumes "IsDone r"
  shows "\<exists>r'. ResizeBuffer r w h = Some r'
           \<and> mBufferWidth r' = (if w \<noteq> mBufferWidth r \<or> h \<noteq> mBufferHeight r then w else mBufferWidth r)
           \<and> mBufferHeight r' = (if w \<noteq> mBufferWidth r \<or> h \<noteq> mBufferHeight r then h else mBufferHeight r)
           \<and> length (mBuffer r') = (if w \<noteq> mBufferWidth r \<or> h \<noteq> mBufferHeight r
                                     then unat w * unat h else length (mBuffer r))
           \<and> mScene r' = Scene_SetSceneSize (mScene r) w h
           \<and> mWorkAreas r' = mWorkAreas r \<and> mCurrentWorkArea r' = mCurrentWorkArea r
           \<and> mNotified r' = mNotified r \<and> mTime r' = mTime r"
proof (cases "w \<noteq> mBufferWidth r \<or> h \<noteq> mBufferHeight r")
  case False
  with assms show ?thesis by (simp add: ResizeBuffer_def)
next
  case True
  let ?r1 = "r\<lparr>mBuffer := replicate (unat w * unat h) None, mBufferWidth := w, mBufferHeight := h\<rparr>"
  let ?r2 = "fill_buffer ?r1 w h"
  have "only_buffer_changed ?r1 ?r2" by (rule only_buffer_changed_fill_buffer)
  then have eq: "?r2 = ?r1\<lparr>mBuffer := mBuffer ?r2\<rparr>" and len: "length (mBuffer ?r2) = unat w * unat h"
    by (simp_all add: only_buffer_changed_def)
  have res: "ResizeBuffer r w h = Some (?r2\<lparr>mScene := Scene_SetSceneSize (mScene ?r2) w h\<rparr>)"
    using assms True by (simp add: ResizeBuffer_def Let_def)
  have fields: "mBufferWidth ?r2 = w" "mBufferHeight ?r2 = h" "mScene ?r2 = mScene r"
     "mWorkAreas ?r2 = mWorkAreas r" "mCurrentWorkArea ?r2 = mCurrentWorkArea r"
     "mNotified ?r2 = mNotified r" "mTime ?r2 = mTime r"
    by (subst eq, simp)+
  show ?thesis using True res len fields by simp
qed

lemma idle_2x2_fields:
  "mBufferWidth idle_2x2 = 2 \<and> mBufferHeight idle_2x2 = 2 \<and> length (mBuffer idle_2x2) = 4
   \<and> mWorkAreas idle_2x2 = [] \<and> mNotified idle_2x2 = 0"
proof -
  have "IsDone CRenderer_new" by (simp add: IsDone_def CRenderer_new_def)
  from ResizeBuffer_done [OF this, of 2 2]
  show ?thesis by (auto simp: idle_2x2_def CRenderer_new_def)
qed

lemma frame_in_flight_eq:
  "frame_in_flight = idle_2x2\<lparr>mWorkAreas := [SWorkArea_new 0 0 2 2], mCurrentWorkArea := 0,
                               mNotified := 1\<rparr>"
  by (simp add: frame_in_flight_def RenderScene_def idle_2x2_fields IsDone_def
        skJobCoreMultiplier_def to_uint32_def max_val_def Let_def
        RenderScene_y_loop.simps RenderScene_x_loop.simps min_val_def)

text \<open>The frame that is enqueued and not started is such a state.\<close>

theorem not_done_noop_witness:
  "\<not> IsDone frame_in_flight
   \<and> RenderScene 4 frame_in_flight = Some frame_in_flight
   \<and> Update (\<lambda>sc t. sc) frame_in_flight (1 / 10) = frame_in_flight"
  using not_done_noop [of frame_in_flight 4 "\<lambda>sc t. sc" "1 / 10"]
  by (simp add: frame_in_flight_eq IsDone_def SWorkArea_new_def)


lemma done_from_step:
  assumes "n < length ws"
  shows "done_from (Suc n) (ws[n := (ws ! n)\<lparr>mJobDone := True\<rparr>]) = done_from n ws"
proof -
  have "take (Suc n) (ws[n := (ws ! n)\<lparr>mJobDone := True\<rparr>]) = take n ws @ [(ws ! n)\<lparr>mJobDone := True\<rparr>]"
    using assms by (simp add: take_Suc_conv_app_nth)
  moreover have "drop (Suc n) (ws[n := (ws ! n)\<lparr>mJobDone := True\<rparr>]) = drop (Suc n) ws"
    by simp
  moreover have "drop n ws = ws ! n # drop (Suc n) ws"
    using assms by (simp add: Cons_nth_drop_Suc)
  ultimately show ?thesis by (simp add: done_from_def)
qed

lemma done_from_beyond: "length ws \<le> n \<Longrightarrow> done_from n ws = ws"
  by (simp add: done_from_def)

lemma Cancel_loop_result:
  assumes "length ws < 2 ^ 32"
  shows "Cancel_loop ws current =
           Some (done_from (unat current) ws,
                 if unat current < length ws then of_nat (length ws) else current)"
  using assms
proof (induction "length ws - unat current" arbitrary: ws current)
  case 0
  then have "\<not> unat current < length ws" by simp
  then show ?case
    by (subst Cancel_loop.simps) (simp add: done_from_beyond)
next
  case (Suc k)
  let ?n = "unat current"
  let ?ws' = "ws[?n := (ws ! ?n)\<lparr>mJobDone := True\<rparr>]"
  from Suc.hyps(2) have lt: "?n < length ws" by simp
  with Suc.prems have "?n + 1 < 2 ^ 32" by simp
  then have "?n + 1 < 4294967296" by simp
  then have next_cur: "unat (current + 1) = Suc ?n"
    by (simp add: unat_word_ariths)
  have k: "k = length ?ws' - unat (current + 1)"
    using Suc.hyps(2) next_cur by simp
  have len: "length ?ws' < 2 ^ 32" using Suc.prems by simp
  have IH: "Cancel_loop ?ws' (current + 1) =
              Some (done_from (unat (current + 1)) ?ws',
                    if unat (current + 1) < length ?ws' then of_nat (length ?ws') else current + 1)"
    using k len by (rule Suc.hyps(1))
  have last: "\<not> Suc ?n < length ws \<Longrightarrow> current + 1 = of_nat (length ws)"
  proof -
    assume "\<not> Suc ?n < length ws"
    with lt have "length ws = Suc ?n" by simp
    then show ?thesis by simp
  qed
  have "Cancel_loop ws current = Cancel_loop ?ws' (current + 1)"
    using lt by (subst Cancel_loop.simps) simp
  also note IH
  finally show ?case
    using lt last by (simp add: next_cur done_from_step)
qed



lemma Cancel_fields:
  assumes "Cancel r = Some r'"
  shows "mBuffer r' = mBuffer r \<and> mBufferWidth r' = mBufferWidth r
         \<and> mBufferHeight r' = mBufferHeight r \<and> mScene r' = mScene r \<and> mTime r' = mTime r
         \<and> mNotified r' = mNotified r \<and> IsDone r'"
  using assms
  by (auto simp: Cancel_def Let_def split: option.splits prod.splits if_splits)


lemma Cancel_waits:
  assumes "length (mWorkAreas r) < 2 ^ 32"
    and "\<not> list_all mJobDone (take (unat (mCurrentWorkArea r)) (mWorkAreas r))"
  shows "Cancel r = None"
proof -
  have "\<not> list_all mJobDone (done_from (unat (mCurrentWorkArea r)) (mWorkAreas r))"
    using assms(2) by (auto simp: done_from_def list_all_iff)
  then show ?thesis
    by (simp add: Cancel_def Cancel_loop_result [OF assms(1)] IsDone_def IsDone_loop_list_all)
qed






lemma pixel_index_le:
  fixes x y w :: "32 word"
  shows "unat (y * w + x) \<le> unat y * unat w + unat x"
proof -
  have "unat (y * w + x) = (unat (y * w) + unat x) mod 2 ^ 32"
    by (simp add: unat_word_ariths)
  also have "\<dots> \<le> unat (y * w) + unat x" by (rule mod_less_eq_dividend)
  also have "unat (y * w) = (unat y * unat w) mod 2 ^ 32"
    by (simp add: unat_word_ariths)
  also have "(unat y * unat w) mod 2 ^ 32 + unat x \<le> unat y * unat w + unat x"
    by simp
  finally show ?thesis .
qed

lemma pixel_below:
  fixes x y w h :: "32 word"
  assumes "x < w" "y < h"
  shows "unat y * unat w + unat x < unat w * unat h"
proof -
  have x: "unat x < unat w" using assms(1) by (simp add: word_less_nat_alt)
  have y: "Suc (unat y) \<le> unat h" using assms(2) by (simp add: word_less_nat_alt)
  have "unat y * unat w + unat x < Suc (unat y) * unat w" using x by simp
  also have "\<dots> \<le> unat h * unat w" using y by (rule mult_le_mono1)
  finally show ?thesis by (simp add: mult.commute)
qed

lemma pixel_index_exact:
  fixes x y w h :: "32 word"
  assumes "x < w" "y < h" "unat w * unat h \<le> 2 ^ 32"
  shows "unat (y * w + x) = unat y * unat w + unat x"
proof -
  have lt: "unat y * unat w + unat x < 2 ^ 32"
    using pixel_below [OF assms(1,2)] assms(3) by simp
  then have "unat y * unat w < 2 ^ 32" by simp
  then have m: "unat (y * w) = unat y * unat w"
    by (simp add: unat_word_ariths)
  have "unat (y * w + x) = (unat (y * w) + unat x) mod 2 ^ 32"
    by (simp add: unat_word_ariths)
  also have "\<dots> = unat y * unat w + unat x"
    using lt by (simp add: m)
  finally show ?thesis .
qed

lemma SetPixelColor_writes_inside:
  assumes "buffer_ok r" "k \<in> set (SetPixelColor_writes r x y)"
  shows "k < length (mBuffer r)"
proof -
  from assms(2) have xy: "x < mBufferWidth r" "y < mBufferHeight r"
    and k: "k = unat (y * mBufferWidth r + x)"
    by (auto simp: SetPixelColor_writes_def split: if_splits)
  have "unat (y * mBufferWidth r + x) \<le> unat y * unat (mBufferWidth r) + unat x"
    by (rule pixel_index_le)
  also have "\<dots> < unat (mBufferWidth r) * unat (mBufferHeight r)"
    using xy by (rule pixel_below)
  finally show ?thesis using assms(1) k by (simp add: buffer_ok_def)
qed

lemma ProcessWorkArea_writes_inside:
  assumes "buffer_ok r" "k \<in> set (ProcessWorkArea_writes r i)"
  shows "k < length (mBuffer r)"
proof -
  from assms(2) obtain x y where "k \<in> set (SetPixelColor_writes r x y)"
    by (auto simp: ProcessWorkArea_writes_def Let_def)
  with assms(1) show ?thesis by (rule SetPixelColor_writes_inside)
qed

lemma ProcessWorkArea_buffer:
  "mBufferWidth (ProcessWorkArea shade r i) = mBufferWidth r
   \<and> mBufferHeight (ProcessWorkArea shade r i) = mBufferHeight r
   \<and> length (mBuffer (ProcessWorkArea shade r i)) = length (mBuffer r)"
proof -
  let ?wa = "mWorkAreas r ! i"
  let ?r' = "fold (\<lambda>y r. fold (\<lambda>x r.
                   let color = shade x y
                   in fold (\<lambda>i r. fold (\<lambda>j r. SetPixelColor r (x + i) (y + j) color)
                                     (counter_values skInitialStepSize) r)
                           (counter_values skInitialStepSize) r)
                 (pixel_values (mMinX ?wa) (mMaxX ?wa)) r)
               (pixel_values (mMinY ?wa) (mMaxY ?wa)) r"
  have "only_buffer_changed r ?r'"
    unfolding Let_def
    by (intro only_buffer_changed_fold only_buffer_changed_SetPixelColor)
  then have eq: "?r' = r\<lparr>mBuffer := mBuffer ?r'\<rparr>" and len: "length (mBuffer ?r') = length (mBuffer r)"
    by (simp_all add: only_buffer_changed_def)
  have "mBufferWidth ?r' = mBufferWidth r" "mBufferHeight ?r' = mBufferHeight r"
    by (subst eq, simp)+
  with len show ?thesis by (simp add: ProcessWorkArea_def Let_def)
qed

text \<open>
  The buffer invariant holds after construction and is kept by every operation of the
  renderer and by the workers.
\<close>

lemma buffer_ok_new: "buffer_ok CRenderer_new"
  by (simp add: buffer_ok_def CRenderer_new_def)

lemma buffer_ok_ResizeBuffer:
  assumes "buffer_ok r" "ResizeBuffer r w h = Some r'"
  shows "buffer_ok r'"
proof -
  from assms(2) obtain r1 where r1: "(if \<not> IsDone r then Cancel r else Some r) = Some r1"
    by (auto simp: ResizeBuffer_def split: option.splits)
  have ok1: "buffer_ok r1" and done1: "IsDone r1"
    using r1 assms(1) Cancel_fields [of r r1]
    by (auto simp: buffer_ok_def split: if_splits)
  have "ResizeBuffer r w h = ResizeBuffer r1 w h"
    using r1 done1 by (simp add: ResizeBuffer_def)
  with assms(2) have "ResizeBuffer r1 w h = Some r'" by simp
  with ResizeBuffer_done [OF done1, of w h] ok1 show ?thesis
    by (auto simp: buffer_ok_def split: if_splits)
qed

lemma buffer_ok_ProcessWorkArea: "buffer_ok r \<Longrightarrow> buffer_ok (ProcessWorkArea shade r i)"
  using ProcessWorkArea_buffer [of shade r i] by (simp add: buffer_ok_def)

lemma buffer_ok_Worker_step: "buffer_ok r \<Longrightarrow> buffer_ok (Worker_step shade r)"
proof -
  assume ok: "buffer_ok r"
  show ?thesis
  proof (cases "mWorkAreas r \<noteq> [] \<and> unat (mCurrentWorkArea r) < length (mWorkAreas r)")
    case True
    have "buffer_ok (r\<lparr>mCurrentWorkArea := mCurrentWorkArea r + 1\<rparr>)"
      using ok by (simp add: buffer_ok_def)
    then have "buffer_ok (ProcessWorkArea shade (r\<lparr>mCurrentWorkArea := mCurrentWorkArea r + 1\<rparr>)
                 (unat (mCurrentWorkArea r)))"
      by (rule buffer_ok_ProcessWorkArea)
    with True show ?thesis by (simp add: Worker_step_def NextWorkArea_def)
  next
    case False
    with ok show ?thesis by (auto simp: Worker_step_def NextWorkArea_def)
  qed
qed

lemma buffer_ok_Update: "buffer_ok r \<Longrightarrow> buffer_ok (Update BuildScene r deltaTime)"
  by (simp add: buffer_ok_def Update_def Let_def)

lemma buffer_ok_RenderScene:
  "buffer_ok r \<Longrightarrow> RenderScene numProcessors r = Some r' \<Longrightarrow> buffer_ok r'"
  by (auto simp: buffer_ok_def RenderScene_def Let_def split: if_splits option.splits)

text \<open>
  C10. \<^verbatim>\<open>SetPixelColor\<close> writes the colour to the cell with the index
  \<open>y * width + x\<close> (as the code computes it, in 32 bits) exactly when \<open>x < width\<close>
  and \<open>y < height\<close>, and returns the state unchanged otherwise; no other field
  changes in either case. In a buffer of \<open>width * height\<close> cells that index lies
  inside the buffer, and it is the number \<open>y * width + x\<close> whenever the buffer has
  at most \<open>2^32\<close> cells. Hence every cell a worker writes while it processes a tile
  lies inside the buffer.
\<close>

theorem SetPixelColor_in_buffer:
  "(x < mBufferWidth r \<and> y < mBufferHeight r \<longrightarrow>
      SetPixelColor r x y c
        = r\<lparr>mBuffer := (mBuffer r)[unat (y * mBufferWidth r + x) := Some c]\<rparr>
      \<and> (buffer_ok r \<longrightarrow>
           unat (y * mBufferWidth r + x) < length (mBuffer r)
         \<and> mBuffer (SetPixelColor r x y c) ! unat (y * mBufferWidth r + x) = Some c
         \<and> (unat (mBufferWidth r) * unat (mBufferHeight r) \<le> 2 ^ 32 \<longrightarrow>
              unat (y * mBufferWidth r + x) = unat y * unat (mBufferWidth r) + unat x)))
   \<and> (\<not> (x < mBufferWidth r \<and> y < mBufferHeight r) \<longrightarrow> SetPixelColor r x y c = r)
   \<and> only_buffer_changed r (SetPixelColor r x y c)
   \<and> (buffer_ok r \<longrightarrow> buffer_ok (SetPixelColor r x y c))
   \<and> (buffer_ok r \<longrightarrow> (\<forall>k\<in>set (ProcessWorkArea_writes r i). k < length (mBuffer r)))"
proof (intro conjI impI ballI)
  assume "x < mBufferWidth r \<and> y < mBufferHeight r"
  then show "SetPixelColor r x y c
        = r\<lparr>mBuffer := (mBuffer r)[unat (y * mBufferWidth r + x) := Some c]\<rparr>"
    by (simp add: SetPixelColor_def)
next
  assume xy: "x < mBufferWidth r \<and> y < mBufferHeight r" and ok: "buffer_ok r"
  have "unat (y * mBufferWidth r + x) \<le> unat y * unat (mBufferWidth r) + unat x"
    by (rule pixel_index_le)
  also have "\<dots> < unat (mBufferWidth r) * unat (mBufferHeight r)"
    using xy by (intro pixel_below) simp_all
  finally show inside: "unat (y * mBufferWidth r + x) < length (mBuffer r)"
    using ok by (simp add: buffer_ok_def)
  then show "mBuffer (SetPixelColor r x y c) ! unat (y * mBufferWidth r + x) = Some c"
    using xy by (simp add: SetPixelColor_def)
next
  assume "x < mBufferWidth r \<and> y < mBufferHeight r"
    and "unat (mBufferWidth r) * unat (mBufferHeight r) \<le> 2 ^ 32"
  then show "unat (y * mBufferWidth r + x) = unat y * unat (mBufferWidth r) + unat x"
    by (intro pixel_index_exact) simp_all
next
  assume "\<not> (x < mBufferWidth r \<and> y < mBufferHeight r)"
  then show "SetPixelColor r x y c = r"
    by (auto simp: SetPixelColor_def)
next
  show "only_buffer_changed r (SetPixelColor r x y c)"
    by (rule only_buffer_changed_SetPixelColor)
next
  assume "buffer_ok r"
  then show "buffer_ok (SetPixelColor r x y c)"
    by (simp add: buffer_ok_def SetPixelColor_def)
next
  fix k
  assume "buffer_ok r" "k \<in> set (ProcessWorkArea_writes r i)"
  then show "k < length (mBuffer r)"
    by (rule ProcessWorkArea_writes_inside)
qed

text \<open>
  On the idle renderer of 2 by 2 pixels: the pixel \<open>(1, 1)\<close> is written to cell 3,
  the pixel \<open>(2, 0)\<close> is outside and nothing is written.
\<close>

theorem SetPixelColor_in_buffer_witness:
  "(1::32 word) < mBufferWidth idle_2x2 \<and> (1::32 word) < mBufferHeight idle_2x2
   \<and> buffer_ok idle_2x2
   \<and> unat (mBufferWidth idle_2x2) * unat (mBufferHeight idle_2x2) \<le> 2 ^ 32
   \<and> mBuffer (SetPixelColor idle_2x2 1 1 White) ! 3 = Some White
   \<and> \<not> ((2::32 word) < mBufferWidth idle_2x2 \<and> (0::32 word) < mBufferHeight idle_2x2)
   \<and> SetPixelColor idle_2x2 2 0 White = idle_2x2"
  using SetPixelColor_in_buffer [of 1 idle_2x2 1 White 0]
        SetPixelColor_in_buffer [of 2 idle_2x2 0 White 0]
  by (simp add: idle_2x2_fields buffer_ok_def)

end
